theory Spec2Isabelle
  imports Main "HOL-Library.Sublist"
begin

section \<open>Python values, exceptions and asynchronous generators\<close>

text \<open>
  The two request handlers of the repository are asynchronous generator methods that call
  external collaborators (the LLM engine, the tokenizer, the response processors, the
  metadata store) and mutate a little state of their own. The embedding makes each of
  these explicit. A collaborator is a field of an environment record and returns either
  the exception it raises or its value. The state of \<open>self\<close> is a record that the handler
  returns updated, together with the log of the calls it made. What the generator yields
  is a list, and how it ends is an \<open>outcome\<close>.

  The consumer is taken to iterate a handler to its end. Log messages and \<open>print\<close> have
  no part in any claim and are left out; so is what the process does once \<open>SIGINT\<close> has
  been raised, which belongs to the runtime.
\<close>

text \<open>The values a prompt is built from: \<open>str\<close>, \<open>int\<close> and \<open>list\<close>.\<close>

datatype pyval = PyStr string | PyInt int | PyList "pyval list"

text \<open>
  Exception classes that the handlers raise or test for. \<open>Named c\<close> is any other
  subclass of Python's \<open>Exception\<close>, by class name, and \<open>Derived c parent\<close> is a class
  named \<open>c\<close> that derives from \<open>parent\<close>. Interpreter signals that derive from
  \<open>BaseException\<close> only (\<open>KeyboardInterrupt\<close>, \<open>GeneratorExit\<close>) are not values of this
  type.
\<close>

datatype exn_class =
    RuntimeError
  | CppExecutorError
  | IndexError
  | Named string
  | Derived string exn_class

text \<open>
  The test an \<open>except c\<close> clause makes on the class of the exception: the class is \<open>c\<close> or
  derives from it. \<open>CppExecutorError\<close> is itself a \<open>RuntimeError\<close>.
\<close>

fun subclass_of :: "exn_class \<Rightarrow> exn_class \<Rightarrow> bool" where
  "subclass_of (Derived name parent) c = (Derived name parent = c \<or> subclass_of parent c)"
| "subclass_of CppExecutorError c = (c = CppExecutorError \<or> c = RuntimeError)"
| "subclass_of d c = (d = c)"

text \<open>
  An exception object: its class, the text \<open>str(e)\<close> returns, and \<open>__context__\<close>,
  which Python sets to the exception being handled when a \<open>raise\<close> runs inside an
  \<open>except\<close> block.
\<close>

datatype exn = Exn (cls: exn_class) (exn_str: string) (exn_context: "exn option")

text \<open>
  An asynchronous generator as its consumer sees it: it yields a value and goes on, ends
  (\<open>StopAsyncIteration\<close>), or raises.
\<close>

datatype 'a agen = Stop | Raise exn | Yield 'a "'a agen"

text \<open>How a handler ends: its generator is exhausted, or an exception leaves it.\<close>

datatype outcome = Finished | Raised exn

section \<open>The TensorRT-LLM worker (\<open>tensorrt_llm/monolith/worker.py\<close>)\<close>

subsection \<open>Requests\<close>

text \<open>
  Objects the handlers only pass on are kept opaque: sampling parameters, the
  disaggregated-parameters block, promises, the merged generator, decoded JSON, chat
  messages, conversation entries and tool definitions.
\<close>

type_synonym sampling = string
type_synonym disagg = string
type_synonym promise = nat
type_synonym merged = string
type_synonym json = string
type_synonym message = string
type_synonym entry = string
type_synonym tool = string
type_synonym tool_dict = string
type_synonym response = string

text \<open>
  \<open>CompletionRequest.prompt\<close> is a \<open>str\<close> or a \<open>list\<close>; these are the two cases the
  \<open>isinstance\<close> tests of the handler tell apart.
\<close>

datatype prompt_field = PromptStr string | PromptList "pyval list"

text \<open>
  Both request classes carry the \<open>stream\<close> flag; the other fields are those the handlers
  read.
\<close>

record openai_request =
  stream :: bool

record completion_request = openai_request +
  prompt :: prompt_field
  n :: "int option"

record chat_request = openai_request +
  messages :: "message list"
  tools :: "tool list option"
  add_generation_prompt :: bool
  documents :: "string option"
  chat_template :: "string option"
  chat_template_kwargs :: "(string \<times> string) list option"

subsection \<open>Calls to collaborators\<close>

text \<open>The log of the calls the handlers make on the engine and its helpers, in order.\<close>

datatype call =
    ToSamplingParams
  | ToLlmDisaggregatedParams
  | GenerateAsync pyval sampling bool "disagg option"
  | MergePromises "promise list"
  | CreateCompletionGenerator completion_request merged int
  | StreamResponse string "entry list" promise
  | RaiseSignalSIGINT

text \<open>
  The collaborators of \<open>TensorrtLLMEngine\<close>. None of them is defined in this repository's
  sources, so each is a parameter, and each may raise. \<open>generate_async\<close> also receives the
  number of promises created so far in the request, so that the engine may answer
  differently from one call to the next. \<open>uuid4\<close> is the identifier \<open>str(uuid.uuid4())\<close>
  gives the chat request.
\<close>

record collaborators =
  to_sampling_params :: "completion_request \<Rightarrow> exn + sampling"
  to_llm_disaggregated_params :: "completion_request \<Rightarrow> exn + disagg option"
  generate_async :: "nat \<Rightarrow> pyval \<Rightarrow> sampling \<Rightarrow> bool \<Rightarrow> disagg option \<Rightarrow> exn + promise"
  merge_promises :: "promise list \<Rightarrow> exn + merged"
  create_completion_generator :: "completion_request \<Rightarrow> merged \<Rightarrow> int \<Rightarrow> exn + string agen"
  json_loads :: "string \<Rightarrow> exn + json"
  uuid4 :: string
  parse_chat_message_content :: "message \<Rightarrow> exn + entry list"
  model_dump :: "tool \<Rightarrow> exn + tool_dict"
  apply_chat_template :: "entry list \<Rightarrow> bool \<Rightarrow> tool_dict list option \<Rightarrow> string option \<Rightarrow>
      string option \<Rightarrow> (string \<times> string) list \<Rightarrow> exn + string"
  chat_to_sampling_params :: "chat_request \<Rightarrow> exn + sampling"
  stream_response :: "chat_request \<Rightarrow> string \<Rightarrow> entry list \<Rightarrow> promise \<Rightarrow> exn + response agen"

subsection \<open>State of the engine object\<close>

record engine =
  llm_engine_initialized :: bool
  ongoing_request_count :: int
  calls :: "call list"

definition log_call :: "call \<Rightarrow> engine \<Rightarrow> engine" where
  "log_call c self = self\<lparr>calls := calls self @ [c]\<rparr>"

subsection \<open>\<open>generate_completion\<close>\<close>

text \<open>
  Lines 118 to 123: a \<open>str\<close>, or a \<open>list\<close> whose first element is an \<open>int\<close>, is one prompt;
  anything else is taken as the sequence of prompts. \<open>request.prompt[0]\<close> is evaluated for
  every list, and raises \<open>IndexError\<close> on the empty one.
\<close>

fun normalize_prompt :: "prompt_field \<Rightarrow> exn + pyval list" where
  "normalize_prompt (PromptStr s) = Inr [PyStr s]"
| "normalize_prompt (PromptList []) = Inl (Exn IndexError ''list index out of range'' None)"
| "normalize_prompt (PromptList (PyInt i # xs)) = Inr [PyList (PyInt i # xs)]"
| "normalize_prompt (PromptList (x # xs)) = Inr (x # xs)"

text \<open>
  Lines 129 to 136: one \<open>generate_async\<close> call per prompt, in order, each with the same
  \<open>sampling_params\<close> and \<open>disaggregated_params\<close>; the promises are collected in order. An
  exception raised by a call ends the loop. The result is the promises (or the exception)
  and the calls made.
\<close>

fun invoke_all :: "collaborators \<Rightarrow> completion_request \<Rightarrow> sampling \<Rightarrow> disagg option \<Rightarrow>
    pyval list \<Rightarrow> promise list \<Rightarrow> (exn + promise list) \<times> call list" where
  "invoke_all E request sp dp [] promises = (Inr promises, [])"
| "invoke_all E request sp dp (p # ps) promises =
     (case generate_async E (length promises) p sp (stream request) dp of
        Inl e \<Rightarrow> (Inl e, [GenerateAsync p sp (stream request) dp])
      | Inr promise \<Rightarrow>
          (case invoke_all E request sp dp ps (promises @ [promise]) of
             (res, cs) \<Rightarrow> (res, GenerateAsync p sp (stream request) dp # cs)))"

text \<open>Line 139.\<close>

definition num_choices :: "pyval list \<Rightarrow> int option \<Rightarrow> int" where
  "num_choices prompts k =
     (case k of None \<Rightarrow> int (length prompts) | Some m \<Rightarrow> int (length prompts) * m)"

text \<open>
  Lines 143 and 144: every response of the generator is decoded and yielded; an exception
  of the generator or of \<open>json.loads\<close> ends the loop after what was already yielded.
\<close>

fun stream_completion :: "collaborators \<Rightarrow> string agen \<Rightarrow> json list \<times> outcome" where
  "stream_completion E Stop = ([], Finished)"
| "stream_completion E (Raise e) = ([], Raised e)"
| "stream_completion E (Yield response rest) =
     (case json_loads E response of
        Inl e \<Rightarrow> ([], Raised e)
      | Inr j \<Rightarrow> (case stream_completion E rest of (ys, out) \<Rightarrow> (j # ys, out)))"

text \<open>
  The whole handler (lines 111 to 147), entered with the engine state \<open>self\<close>. The
  result is the state afterwards, the values yielded, and the outcome. The decrement of
  line 147 is reached only when the loop of line 143 ends normally.
\<close>

definition generate_completion ::
    "collaborators \<Rightarrow> engine \<Rightarrow> completion_request \<Rightarrow> engine \<times> json list \<times> outcome" where
  "generate_completion E self request =
     (if \<not> llm_engine_initialized self
      then (self, [], Raised (Exn RuntimeError ''Engine not initialized'' None))
      else
       (let self1 = self\<lparr>ongoing_request_count := ongoing_request_count self + 1\<rparr> in
        case normalize_prompt (prompt request) of
          Inl e \<Rightarrow> (self1, [], Raised e)
        | Inr prompts \<Rightarrow>
       (let self2 = log_call ToSamplingParams self1 in
        case to_sampling_params E request of
          Inl e \<Rightarrow> (self2, [], Raised e)
        | Inr sampling_params \<Rightarrow>
       (let self3 = log_call ToLlmDisaggregatedParams self2 in
        case to_llm_disaggregated_params E request of
          Inl e \<Rightarrow> (self3, [], Raised e)
        | Inr disaggregated_params \<Rightarrow>
       (case invoke_all E request sampling_params disaggregated_params prompts [] of
          (Inl e, cs) \<Rightarrow> (self3\<lparr>calls := calls self3 @ cs\<rparr>, [], Raised e)
        | (Inr promises, cs) \<Rightarrow>
       (let self4 = self3\<lparr>calls := calls self3 @ cs\<rparr>;
            self5 = log_call (MergePromises promises) self4 in
        case merge_promises E promises of
          Inl e \<Rightarrow> (self5, [], Raised e)
        | Inr generator \<Rightarrow>
       (let k = num_choices prompts (n request);
            self6 = log_call (CreateCompletionGenerator request generator k) self5 in
        case create_completion_generator E request generator k of
          Inl e \<Rightarrow> (self6, [], Raised e)
        | Inr response_generator \<Rightarrow>
       (case stream_completion E response_generator of
          (ys, Raised e) \<Rightarrow> (self6, ys, Raised e)
        | (ys, Finished) \<Rightarrow>
            (self6\<lparr>ongoing_request_count := ongoing_request_count self6 - 1\<rparr>, ys,
             Finished)))))))))"

subsection \<open>\<open>generate_chat\<close>\<close>

text \<open>Lines 69 to 71: the conversation is the concatenation of the parsed messages.\<close>

fun build_conversation :: "collaborators \<Rightarrow> message list \<Rightarrow> entry list \<Rightarrow> exn + entry list" where
  "build_conversation E [] conversation = Inr conversation"
| "build_conversation E (m # ms) conversation =
     (case parse_chat_message_content E m of
        Inl e \<Rightarrow> Inl e
      | Inr parts \<Rightarrow> build_conversation E ms (conversation @ parts))"

text \<open>Lines 72 to 76: \<open>None\<close> without tools, else every tool dumped, in order.\<close>

fun dump_all :: "collaborators \<Rightarrow> tool list \<Rightarrow> exn + tool_dict list" where
  "dump_all E [] = Inr []"
| "dump_all E (t # ts) =
     (case model_dump E t of
        Inl e \<Rightarrow> Inl e
      | Inr d \<Rightarrow> (case dump_all E ts of Inl e \<Rightarrow> Inl e | Inr ds \<Rightarrow> Inr (d # ds)))"

definition tool_dicts :: "collaborators \<Rightarrow> chat_request \<Rightarrow> exn + tool_dict list option" where
  "tool_dicts E request =
     (case tools request of
        None \<Rightarrow> Inr None
      | Some ts \<Rightarrow> (case dump_all E ts of Inl e \<Rightarrow> Inl e | Inr ds \<Rightarrow> Inr (Some ds)))"

text \<open>Lines 98 to 100: every response of the stream is yielded.\<close>

fun stream_chat :: "response agen \<Rightarrow> response list \<times> outcome" where
  "stream_chat Stop = ([], Finished)"
| "stream_chat (Raise e) = ([], Raised e)"
| "stream_chat (Yield r rest) = (case stream_chat rest of (ys, out) \<Rightarrow> (r # ys, out))"

text \<open>
  The body of the \<open>try\<close> statement (lines 69 to 103). The \<open>raise\<close> of line 103 is inside it.
\<close>

definition chat_try :: "collaborators \<Rightarrow> engine \<Rightarrow> chat_request \<Rightarrow> string \<Rightarrow>
    engine \<times> response list \<times> outcome" where
  "chat_try E self request request_id =
     (case build_conversation E (messages request) [] of
        Inl e \<Rightarrow> (self, [], Raised e)
      | Inr conversation \<Rightarrow>
     (case tool_dicts E request of
        Inl e \<Rightarrow> (self, [], Raised e)
      | Inr dicts \<Rightarrow>
     (case apply_chat_template E conversation (add_generation_prompt request) dicts
             (documents request) (chat_template request)
             (case chat_template_kwargs request of None \<Rightarrow> [] | Some kw \<Rightarrow> kw) of
        Inl e \<Rightarrow> (self, [], Raised e)
      | Inr prompt_text \<Rightarrow>
     (case chat_to_sampling_params E request of
        Inl e \<Rightarrow> (self, [], Raised e)
      | Inr sampling_params \<Rightarrow>
      if llm_engine_initialized self then
       (let self1 = log_call (GenerateAsync (PyStr prompt_text) sampling_params
                                (stream request) None) self in
        case generate_async E 0 (PyStr prompt_text) sampling_params (stream request) None of
          Inl e \<Rightarrow> (self1, [], Raised e)
        | Inr promise \<Rightarrow>
        if stream request then
         (let self2 = log_call (StreamResponse request_id conversation promise) self1 in
          case stream_response E request request_id conversation promise of
            Inl e \<Rightarrow> (self2, [], Raised e)
          | Inr response_generator \<Rightarrow>
              (case stream_chat response_generator of (ys, out) \<Rightarrow> (self2, ys, out)))
        else (self1, [], Raised (Exn RuntimeError ''Non-streaming is not supported'' None)))
      else (self, [], Finished)))))"

text \<open>
  The two \<open>except\<close> clauses (lines 104 to 108), in their order: an instance of
  \<open>CppExecutorError\<close> or of a class deriving from it raises \<open>SIGINT\<close> in the process
  and the handler ends; any other exception is replaced
  by a \<open>RuntimeError\<close> whose text is \<open>Failed to generate: \<close> followed by \<open>str(e)\<close>, and
  whose \<open>__context__\<close> is the exception that was being handled.
\<close>

definition chat_except :: "engine \<times> response list \<times> outcome \<Rightarrow> engine \<times> response list \<times> outcome" where
  "chat_except r =
     (case r of
        (self, ys, Finished) \<Rightarrow> (self, ys, Finished)
      | (self, ys, Raised e) \<Rightarrow>
          if subclass_of (cls e) CppExecutorError
          then (log_call RaiseSignalSIGINT self, ys, Finished)
          else (self, ys, Raised (Exn RuntimeError (''Failed to generate: '' @ exn_str e) (Some e))))"

text \<open>The whole handler (lines 61 to 108).\<close>

definition generate_chat ::
    "collaborators \<Rightarrow> engine \<Rightarrow> chat_request \<Rightarrow> engine \<times> response list \<times> outcome" where
  "generate_chat E self request =
     (if \<not> llm_engine_initialized self
      then (self, [], Raised (Exn RuntimeError ''Engine not initialized'' None))
      else chat_except (chat_try E self request (uuid4 E)))"

section \<open>The prefill worker (\<open>vllm_nixl/prefill_worker.py\<close>)\<close>

subsection \<open>Requests and collaborators\<close>

type_synonym nixl_metadata = string

text \<open>
  The fields of vLLM's \<open>SamplingParams\<close> the handler writes, and the others kept opaque.
\<close>

record SamplingParams =
  max_tokens :: "int option"
  min_tokens :: int
  other_params :: string

record RemotePrefillRequest =
  engine_id :: string
  request_id :: string
  prompt_token_ids :: "int list"
  sampling_params :: SamplingParams
  block_ids :: "int list"

record RemotePrefillParams =
  is_remote_decode :: bool
  decode_block_ids :: "int list"
  decode_engine_id :: string

text \<open>The calls the handler makes on the metadata store and on the engine client, in order.\<close>

datatype prefill_call =
    StoreGet string
  | AddRemoteNixlMetadata nixl_metadata
  | EngineGenerate string "int list" SamplingParams RemotePrefillParams

text \<open>
  The collaborators of \<open>RequestHandler\<close>: the decoder of the raw request, the metadata
  store's \<open>get\<close>, and the engine client's \<open>add_remote_nixl_metadata\<close> and \<open>generate\<close>.
  They are not in this repository's sources; each is a parameter and may raise.
\<close>

record prefill_collaborators =
  msgspec_decode :: "string \<Rightarrow> exn + RemotePrefillRequest"
  store_get :: "string \<Rightarrow> exn + nixl_metadata"
  add_remote_nixl_metadata :: "nixl_metadata \<Rightarrow> exn + unit"
  engine_generate :: "string \<Rightarrow> int list \<Rightarrow> SamplingParams \<Rightarrow> RemotePrefillParams \<Rightarrow>
      exn + unit agen"

text \<open>
  Modelled from the spec: \<open>MetadataStore.get\<close> (section 4.1), whose class
  \<open>NixlMetadataStore\<close> is imported from a module that is not among the sources. Over the
  published entries, \<open>get\<close> fails with \<open>NotFoundError\<close> for an identifier nobody published
  and returns the published metadata otherwise.
\<close>

definition metadata_store_get :: "(string \<rightharpoonup> nixl_metadata) \<Rightarrow> string \<Rightarrow> exn + nixl_metadata" where
  "metadata_store_get published eid =
     (case published eid of
        None \<Rightarrow> Inl (Exn (Named ''NotFoundError'') eid None)
      | Some metadata \<Rightarrow> Inr metadata)"

subsection \<open>State of the handler object\<close>

record request_handler =
  loaded_metadata :: "string set"
  prefill_calls :: "prefill_call list"

definition log_prefill :: "prefill_call \<Rightarrow> request_handler \<Rightarrow> request_handler" where
  "log_prefill c self = self\<lparr>prefill_calls := prefill_calls self @ [c]\<rparr>"

subsection \<open>\<open>RequestHandler.generate\<close>\<close>

text \<open>
  Lines 61 to 82, the metadata handshake: for an identifier not yet in
  \<open>_loaded_metadata\<close>, fetch its metadata from the store, hand it to the engine client,
  then record the identifier. An exception of either call leaves the handler before the
  identifier is recorded. The result is the state afterwards and the exception, if any.
\<close>

definition load_nixl_metadata ::
    "prefill_collaborators \<Rightarrow> request_handler \<Rightarrow> string \<Rightarrow> request_handler \<times> exn option" where
  "load_nixl_metadata E self eid =
     (if eid \<notin> loaded_metadata self then
       (let self1 = log_prefill (StoreGet eid) self in
        case store_get E eid of
          Inl e \<Rightarrow> (self1, Some e)
        | Inr remote_metadata \<Rightarrow>
       (let self2 = log_prefill (AddRemoteNixlMetadata remote_metadata) self1 in
        case add_remote_nixl_metadata E remote_metadata of
          Inl e \<Rightarrow> (self2, Some e)
        | Inr u \<Rightarrow> (self2\<lparr>loaded_metadata := insert eid (loaded_metadata self2)\<rparr>, None)))
      else (self, None))"

text \<open>Lines 87 to 96: one bare \<open>yield\<close> for every output of the engine.\<close>

fun stream_prefill :: "unit agen \<Rightarrow> unit list \<times> outcome" where
  "stream_prefill Stop = ([], Finished)"
| "stream_prefill (Raise e) = ([], Raised e)"
| "stream_prefill (Yield u rest) = (case stream_prefill rest of (ys, out) \<Rightarrow> (() # ys, out))"

text \<open>The whole handler (lines 40 to 96).\<close>

definition prefill_generate ::
    "prefill_collaborators \<Rightarrow> request_handler \<Rightarrow> string \<Rightarrow> request_handler \<times> unit list \<times> outcome" where
  "prefill_generate E self raw_request =
     (case msgspec_decode E raw_request of
        Inl e \<Rightarrow> (self, [], Raised e)
      | Inr request \<Rightarrow>
     (let params = (sampling_params request)\<lparr>max_tokens := Some 1, min_tokens := 1\<rparr>;
          remote_prefill_params =
            \<lparr>is_remote_decode = True, decode_block_ids = block_ids request,
             decode_engine_id = engine_id request\<rparr> in
      case load_nixl_metadata E self (engine_id request) of
        (self1, Some e) \<Rightarrow> (self1, [], Raised e)
      | (self1, None) \<Rightarrow>
     (let self2 = log_prefill (EngineGenerate (request_id request) (prompt_token_ids request)
                                 params remote_prefill_params) self1 in
      case engine_generate E (request_id request) (prompt_token_ids request)
             params remote_prefill_params of
        Inl e \<Rightarrow> (self2, [], Raised e)
      | Inr outputs \<Rightarrow> (case stream_prefill outputs of (ys, out) \<Rightarrow> (self2, ys, out)))))"

section \<open>Notions used in the statements\<close>

subsection \<open>Reading the call logs\<close>

text \<open>The calls a handler added to the log between two states.\<close>

definition new_calls :: "engine \<Rightarrow> engine \<Rightarrow> call list" where
  "new_calls self self' = drop (length (calls self)) (calls self')"

definition new_prefill_calls :: "request_handler \<Rightarrow> request_handler \<Rightarrow> prefill_call list" where
  "new_prefill_calls self self' = drop (length (prefill_calls self)) (prefill_calls self')"

text \<open>
  The calls that derive the shared parameters and the calls that invoke the engine, and
  the \<open>num_choices\<close> argument of a call that creates the response generator.
\<close>

fun derives_or_invokes :: "call \<Rightarrow> bool" where
  "derives_or_invokes ToSamplingParams = True"
| "derives_or_invokes ToLlmDisaggregatedParams = True"
| "derives_or_invokes (GenerateAsync p sp s dp) = True"
| "derives_or_invokes c = False"

fun passed_num_choices :: "call \<Rightarrow> int option" where
  "passed_num_choices (CreateCompletionGenerator r g k) = Some k"
| "passed_num_choices c = None"

text \<open>The sampling parameters of a call of the engine client's \<open>generate\<close>.\<close>

fun generate_params :: "prefill_call \<Rightarrow> SamplingParams option" where
  "generate_params (EngineGenerate rid toks sp rpp) = Some sp"
| "generate_params c = None"

text \<open>How many times the store was asked for an identifier.\<close>

definition store_gets :: "string \<Rightarrow> prefill_call list \<Rightarrow> nat" where
  "store_gets eid cs = length (filter (\<lambda>c. c = StoreGet eid) cs)"

subsection \<open>Kinds of prompt\<close>

fun is_int :: "pyval \<Rightarrow> bool" where
  "is_int (PyInt i) = True"
| "is_int v = False"

fun is_str :: "pyval \<Rightarrow> bool" where
  "is_str (PyStr s) = True"
| "is_str v = False"

fun is_token_list :: "pyval \<Rightarrow> bool" where
  "is_token_list (PyList xs) = list_all is_int xs"
| "is_token_list v = False"

subsection \<open>The error taxonomy, in terms of the exceptions the code raises\<close>

text \<open>
  The worker raises \<open>RuntimeError\<close> throughout and tells its failures apart by their text.
  \<open>UnsupportedOperationError\<close> is the exception of line 103; \<open>GenerationFailedError e\<close> is the
  exception line 108 raises while handling \<open>e\<close>. The prefill worker defines no exception
  class; \<open>MetadataUnavailableError\<close> and \<open>NotFoundError\<close> are class names.
\<close>

definition UnsupportedOperationError :: exn where
  "UnsupportedOperationError = Exn RuntimeError ''Non-streaming is not supported'' None"

definition GenerationFailedError :: "exn \<Rightarrow> exn" where
  "GenerationFailedError e = Exn RuntimeError (''Failed to generate: '' @ exn_str e) (Some e)"

definition MetadataUnavailableError :: exn_class where
  "MetadataUnavailableError = Named ''MetadataUnavailableError''"

definition NotFoundError :: exn_class where
  "NotFoundError = Named ''NotFoundError''"

text \<open>
  What the error design says becomes of an exception \<open>e\<close> that leaves the \<open>try\<close> body of
  the chat handler in state \<open>self\<close>, after the responses \<open>ys\<close>: an executor fault raises
  \<open>SIGINT\<close> and is no error of the request; any other exception reaches the caller as
  the \<open>GenerationFailedError\<close> for \<open>e\<close>.
\<close>

definition fault_or_failure ::
    "engine \<Rightarrow> response list \<Rightarrow> exn \<Rightarrow> engine \<times> response list \<times> outcome" where
  "fault_or_failure self ys e =
     (if subclass_of (cls e) CppExecutorError
      then (self\<lparr>calls := calls self @ [RaiseSignalSIGINT]\<rparr>, ys, Finished)
      else (self, ys, Raised (GenerationFailedError e)))"

fun raised_class :: "outcome \<Rightarrow> exn_class option" where
  "raised_class Finished = None"
| "raised_class (Raised e) = Some (cls e)"

subsection \<open>Concrete collaborators and states\<close>

text \<open>
  Collaborators that never raise: every prompt gets a promise, the response generator
  yields one chunk, the chat stream yields two.
\<close>

definition steady :: collaborators where
  "steady =
     \<lparr>to_sampling_params = (\<lambda>r. Inr ''sampling''),
      to_llm_disaggregated_params = (\<lambda>r. Inr None),
      generate_async = (\<lambda>i p sp s dp. Inr i),
      merge_promises = (\<lambda>ps. Inr ''merged''),
      create_completion_generator = (\<lambda>r g k. Inr (Yield ''{}'' Stop)),
      json_loads = (\<lambda>s. Inr s),
      uuid4 = ''request-1'',
      parse_chat_message_content = (\<lambda>m. Inr [m]),
      model_dump = (\<lambda>t. Inr t),
      apply_chat_template = (\<lambda>c g t d ct kw. Inr (concat c)),
      chat_to_sampling_params = (\<lambda>r. Inr ''sampling''),
      stream_response = (\<lambda>r i c p. Inr (Yield ''delta-1'' (Yield ''delta-2'' Stop)))\<rparr>"

text \<open>An initialized engine with no request in flight.\<close>

definition idle :: engine where
  "idle = \<lparr>llm_engine_initialized = True, ongoing_request_count = 0, calls = []\<rparr>"

definition hello_world :: completion_request where
  "hello_world = \<lparr>stream = True, prompt = PromptList [PyStr ''hello'', PyStr ''world''], n = Some 2\<rparr>"

definition empty_prompt :: completion_request where
  "empty_prompt = \<lparr>stream = True, prompt = PromptList [], n = None\<rparr>"

definition chat :: "bool \<Rightarrow> chat_request" where
  "chat s =
     \<lparr>stream = s, messages = [''hi''], tools = None, add_generation_prompt = True,
      documents = None, chat_template = None, chat_template_kwargs = None\<rparr>"

text \<open>
  An engine whose executor has failed, a chat template that cannot be applied, and a chat
  stream that breaks after its first chunk.
\<close>

definition faulty :: collaborators where
  "faulty = steady\<lparr>generate_async :=
     (\<lambda>i p sp s dp. Inl (Exn CppExecutorError ''executor failed'' None))\<rparr>"

definition garbled :: collaborators where
  "garbled = steady\<lparr>apply_chat_template :=
     (\<lambda>c g t d ct kw. Inl (Exn (Named ''TemplateError'') ''bad template'' None))\<rparr>"

definition flaky :: collaborators where
  "flaky = steady\<lparr>stream_response :=
     (\<lambda>r i c p. Inr (Yield ''delta-1'' (Raise (Exn (Named ''ValueError'') ''bad chunk'' None))))\<rparr>"

text \<open>
  A prefill request of the decode engine \<open>eid\<close>, and a prefill worker that decodes every
  raw request to the request of the engine it names, whose store holds the entries
  \<open>published\<close>, and whose engine client ingests metadata (or fails to, as \<open>ingest\<close> says)
  and produces one output.
\<close>

definition prefill_request :: "string \<Rightarrow> RemotePrefillRequest" where
  "prefill_request eid =
     \<lparr>engine_id = eid, request_id = ''r1'', prompt_token_ids = [1, 2, 3],
      sampling_params = \<lparr>max_tokens = Some 128, min_tokens = 0, other_params = ''seed''\<rparr>,
      block_ids = [7]\<rparr>"

definition prefill_env :: "(string \<rightharpoonup> nixl_metadata) \<Rightarrow> exn + unit \<Rightarrow> prefill_collaborators" where
  "prefill_env published ingest =
     \<lparr>msgspec_decode = (\<lambda>raw. Inr (prefill_request raw)),
      store_get = metadata_store_get published,
      add_remote_nixl_metadata = (\<lambda>m. ingest),
      engine_generate = (\<lambda>rid toks sp rpp. Inr (Yield () Stop))\<rparr>"

text \<open>A handler that has loaded nothing yet, and one that has loaded \<open>decode-1\<close>.\<close>

definition fresh :: request_handler where
  "fresh = \<lparr>loaded_metadata = {}, prefill_calls = []\<rparr>"

definition loaded :: request_handler where
  "loaded =
     \<lparr>loaded_metadata = {''decode-1''},
      prefill_calls = [StoreGet ''decode-1'', AddRemoteNixlMetadata ''nixl'']\<rparr>"

section \<open>The completion handler\<close>

subsection \<open>Normalization of the prompt field\<close>

lemma normalize_prompt_not_int:
  "\<not> is_int x \<Longrightarrow> normalize_prompt (PromptList (x # xs)) = Inr (x # xs)"
  by (cases x) simp_all

lemma normalize_prompt_length:
  "normalize_prompt p = Inr ps \<Longrightarrow> 1 \<le> length ps"
  by (induction p rule: normalize_prompt.induct) auto

text \<open>
  Claim C7, as stated: the normalization step maps the prompt field to \<open>K \<ge> 1\<close> prompts, a
  list of integers becoming the one-element sequence that holds it and any other sequence
  being used as it is. The empty list is a list of integers, and a sequence of strings,
  and normalization maps it to neither: evaluating its first element raises \<open>IndexError\<close>.
\<close>

theorem normalize_prompt_empty_counterexample:
  "list_all is_int [] \<and> list_all is_str [] \<and>
   normalize_prompt (PromptList []) \<noteq> Inr [PyList []] \<and>
   normalize_prompt (PromptList []) \<noteq> Inr [] \<and>
   normalize_prompt (PromptList []) = Inl (Exn IndexError ''list index out of range'' None)"
  by simp

text \<open>
  Claim C7, amended. The normalization step of the completion handler maps a non-empty
  prompt field to an ordered sequence of \<open>K \<ge> 1\<close> prompts: a single string becomes the
  one-element sequence holding it; a single non-empty pre-tokenized sequence (a list of
  integers with first token \<open>t\<close>) becomes the one-element sequence holding it; any other
  non-empty sequence, of strings or of token lists, is used as it is, in its order. The
  code looks at the first element only, so the third case needs no more than a first
  element that is a string or a token list. Whatever normalization returns has at least
  one prompt.
\<close>

theorem normalize_prompt_cases:
  "normalize_prompt (PromptStr s) = Inr [PyStr s] \<and>
   normalize_prompt (PromptList (map PyInt (t # ts))) = Inr [PyList (map PyInt (t # ts))] \<and>
   (is_str x \<or> is_token_list x \<longrightarrow> normalize_prompt (PromptList (x # xs)) = Inr (x # xs)) \<and>
   (normalize_prompt p = Inr ps \<longrightarrow> 1 \<le> length ps)"
proof -
  have "is_str x \<or> is_token_list x \<Longrightarrow> \<not> is_int x"
    by (cases x) simp_all
  then show ?thesis
    using normalize_prompt_not_int [of x xs] normalize_prompt_length [of p ps] by simp
qed

theorem normalize_prompt_cases_witness:
  "normalize_prompt (PromptStr ''hello'') = Inr [PyStr ''hello''] \<and>
   normalize_prompt (PromptList [PyInt 1, PyInt 2]) = Inr [PyList [PyInt 1, PyInt 2]] \<and>
   is_str (PyStr ''hello'') \<and>
   normalize_prompt (PromptList [PyStr ''hello'', PyStr ''world''])
     = Inr [PyStr ''hello'', PyStr ''world''] \<and>
   (1::nat) \<le> length [PyStr ''hello'', PyStr ''world'']"
  using normalize_prompt_cases [of "''hello''" 1 "[2]" "PyStr ''hello''" "[PyStr ''world'']"
      "PromptList [PyStr ''hello'', PyStr ''world'']" "[PyStr ''hello'', PyStr ''world'']"]
  by simp

subsection \<open>The empty prompt list\<close>

text \<open>
  Claim C10. When the prompt field of a completion request is the empty list, the
  normalization step evaluates \<open>prompt[0]\<close> and raises \<open>IndexError\<close>. The exception leaves
  the handler as it is (it is no \<open>RuntimeError\<close> of the handler's own and nothing wraps
  it), nothing is yielded, the counter of ongoing requests has already been incremented
  and stays so, and the call log is unchanged: no call reached the engine.
\<close>

theorem generate_completion_empty_prompt:
  assumes "llm_engine_initialized self" and "prompt request = PromptList []"
  shows "generate_completion E self request =
           (self\<lparr>ongoing_request_count := ongoing_request_count self + 1\<rparr>, [],
            Raised (Exn IndexError ''list index out of range'' None))"
  using assms by (simp add: generate_completion_def)

theorem generate_completion_empty_prompt_witness:
  "llm_engine_initialized idle \<and> prompt empty_prompt = PromptList [] \<and>
   generate_completion steady idle empty_prompt =
     (idle\<lparr>ongoing_request_count := ongoing_request_count idle + 1\<rparr>, [],
      Raised (Exn IndexError ''list index out of range'' None))"
  using generate_completion_empty_prompt [of idle empty_prompt steady]
  by (simp add: idle_def empty_prompt_def)

subsection \<open>The calls of one request\<close>

lemma log_call_fields [simp]:
  "llm_engine_initialized (log_call c self) = llm_engine_initialized self"
  "ongoing_request_count (log_call c self) = ongoing_request_count self"
  "calls (log_call c self) = calls self @ [c]"
  by (simp_all add: log_call_def)

lemma new_calls_append [simp]:
  "calls self' = calls self @ cs \<Longrightarrow> new_calls self self' = cs"
  by (simp add: new_calls_def)

text \<open>
  The invocation loop calls the engine on a prefix of the prompts, in their order, always
  with the parameters it was given; when it returns promises, it has called it on all.
\<close>

lemma invoke_all_calls:
  "invoke_all E r sp dp ps promises = (res, cs) \<Longrightarrow>
     prefix cs (map (\<lambda>p. GenerateAsync p sp (stream r) dp) ps) \<and>
     (\<forall>promises'. res = Inr promises' \<longrightarrow>
        cs = map (\<lambda>p. GenerateAsync p sp (stream r) dp) ps \<and>
        length promises' = length promises + length ps)"
proof (induction ps arbitrary: promises res cs)
  case Nil
  then show ?case by auto
next
  case (Cons p ps)
  show ?case
  proof (cases "generate_async E (length promises) p sp (stream r) dp")
    case (Inl e)
    with Cons.prems show ?thesis by auto
  next
    case (Inr pr)
    obtain res' cs' where rec: "invoke_all E r sp dp ps (promises @ [pr]) = (res', cs')"
      by (cases "invoke_all E r sp dp ps (promises @ [pr])")
    with Inr Cons.prems have "res = res'" "cs = GenerateAsync p sp (stream r) dp # cs'"
      by simp_all
    with Cons.IH [OF rec] show ?thesis by auto
  qed
qed

lemma filter_invocations:
  "prefix cs (map (\<lambda>p. GenerateAsync p sp s dp) ps) \<Longrightarrow> filter derives_or_invokes cs = cs"
  by (auto simp: prefix_def filter_id_conv map_eq_append_conv)

text \<open>
  What the loop returns, in terms of what the engine answers. When the engine returns a
  promise for every prompt (called with the number of promises so far, the prompt, \<open>sp\<close>,
  the \<open>stream\<close> flag and \<open>dp\<close>), the loop returns those promises in order. When the call
  for prompt \<open>j\<close> is the first to raise, the loop ends with that exception, after the calls
  for the prompts up to \<open>j\<close>.
\<close>

lemma invoke_all_returns:
  "length ps = length prompts \<Longrightarrow>
   \<forall>i<length prompts.
      generate_async E (length acc + i) (prompts ! i) sp (stream r) dp = Inr (ps ! i) \<Longrightarrow>
   invoke_all E r sp dp prompts acc =
     (Inr (acc @ ps), map (\<lambda>p. GenerateAsync p sp (stream r) dp) prompts)"
proof (induction prompts arbitrary: acc ps)
  case Nil
  then show ?case by simp
next
  case (Cons p prompts)
  from Cons.prems(1) obtain q qs where ps: "ps = q # qs" "length qs = length prompts"
    by (cases ps) auto
  from Cons.prems(2) have first: "generate_async E (length acc) p sp (stream r) dp = Inr q"
    unfolding ps by fastforce
  have "\<forall>i<length prompts.
      generate_async E (length (acc @ [q]) + i) (prompts ! i) sp (stream r) dp = Inr (qs ! i)"
  proof (intro allI impI)
    fix i assume "i < length prompts"
    then have "Suc i < length (p # prompts)" by simp
    from Cons.prems(2) [rule_format, OF this] show
      "generate_async E (length (acc @ [q]) + i) (prompts ! i) sp (stream r) dp = Inr (qs ! i)"
      unfolding ps by simp
  qed
  from Cons.IH [OF ps(2) this] first show ?case
    unfolding ps by simp
qed

lemma invoke_all_raises:
  "j < length prompts \<Longrightarrow>
   \<forall>i<j. \<not> isl (generate_async E (length acc + i) (prompts ! i) sp (stream r) dp) \<Longrightarrow>
   generate_async E (length acc + j) (prompts ! j) sp (stream r) dp = Inl e \<Longrightarrow>
   invoke_all E r sp dp prompts acc =
     (Inl e, map (\<lambda>p. GenerateAsync p sp (stream r) dp) (take (Suc j) prompts))"
proof (induction prompts arbitrary: acc j)
  case Nil
  then show ?case by simp
next
  case (Cons p prompts)
  show ?case
  proof (cases j)
    case 0
    with Cons.prems show ?thesis by simp
  next
    case (Suc k)
    from Cons.prems(2) Suc have "\<not> isl (generate_async E (length acc) p sp (stream r) dp)"
      by fastforce
    then obtain q where first: "generate_async E (length acc) p sp (stream r) dp = Inr q"
      by (cases "generate_async E (length acc) p sp (stream r) dp") auto
    have k: "k < length prompts" using Cons.prems(1) Suc by simp
    have ok: "\<forall>i<k. \<not> isl (generate_async E (length (acc @ [q]) + i) (prompts ! i) sp (stream r) dp)"
    proof (intro allI impI)
      fix i assume "i < k"
      then have "Suc i < j" using Suc by simp
      from Cons.prems(2) [rule_format, OF this]
      show "\<not> isl (generate_async E (length (acc @ [q]) + i) (prompts ! i) sp (stream r) dp)"
        by simp
    qed
    have bad: "generate_async E (length (acc @ [q]) + k) (prompts ! k) sp (stream r) dp = Inl e"
      using Cons.prems(3) Suc by simp
    from Cons.IH [OF k ok bad] first Suc show ?thesis by simp
  qed
qed

text \<open>The handler after the invocation loop: how it goes on from what the loop returned.\<close>

lemma generate_completion_invocation_raises:
  assumes "llm_engine_initialized self"
    and "normalize_prompt (prompt request) = Inr prompts"
    and "to_sampling_params E request = Inr sp"
    and "to_llm_disaggregated_params E request = Inr dp"
    and "invoke_all E request sp dp prompts [] = (Inl e, cs)"
  shows "generate_completion E self request =
           (self\<lparr>ongoing_request_count := ongoing_request_count self + 1,
                  calls := calls self @ [ToSamplingParams, ToLlmDisaggregatedParams] @ cs\<rparr>,
            [], Raised e)"
  using assms by (simp add: generate_completion_def log_call_def)

lemma generate_completion_merge_raises:
  assumes "llm_engine_initialized self"
    and "normalize_prompt (prompt request) = Inr prompts"
    and "to_sampling_params E request = Inr sp"
    and "to_llm_disaggregated_params E request = Inr dp"
    and "invoke_all E request sp dp prompts [] = (Inr ps, cs)"
    and "merge_promises E ps = Inl e"
  shows "generate_completion E self request =
           (self\<lparr>ongoing_request_count := ongoing_request_count self + 1,
                  calls := calls self @ [ToSamplingParams, ToLlmDisaggregatedParams] @ cs @
                             [MergePromises ps]\<rparr>,
            [], Raised e)"
  using assms by (simp add: generate_completion_def log_call_def)

lemma generate_completion_format:
  assumes "llm_engine_initialized self"
    and "normalize_prompt (prompt request) = Inr prompts"
    and "to_sampling_params E request = Inr sp"
    and "to_llm_disaggregated_params E request = Inr dp"
    and "invoke_all E request sp dp prompts [] = (Inr ps, cs)"
    and "merge_promises E ps = Inr generator"
  shows "snd (generate_completion E self request) =
           (case create_completion_generator E request generator
                   (num_choices prompts (n request)) of
              Inl e \<Rightarrow> ([], Raised e)
            | Inr response_generator \<Rightarrow> stream_completion E response_generator)"
    and "new_calls self (fst (generate_completion E self request)) =
           [ToSamplingParams, ToLlmDisaggregatedParams] @ cs @
           [MergePromises ps,
            CreateCompletionGenerator request generator (num_choices prompts (n request))]"
  using assms
  by (auto simp: generate_completion_def new_calls_def Let_def
           split: sum.splits prod.splits outcome.splits)

subsection \<open>The number of choices\<close>

text \<open>
  Claim C3. Take a completion request that normalizes to the prompts \<open>prompts\<close>, \<open>K\<close> of
  them, and whose handling reaches the creation of the response generator: the shared
  parameters are derived, the engine returns a promise for every prompt, and the promises
  merge into \<open>generator\<close>. Then \<open>K \<ge> 1\<close>, and what the handler yields and how it ends is
  what comes of \<open>create_completion_generator\<close> applied to the request, \<open>generator\<close> and
  \<open>num_choices\<close>, streamed to the caller, where \<open>num_choices = K\<close> when the request's \<open>n\<close>
  is unset and \<open>num_choices = K * n\<close> when it is set (to a positive integer or to any
  other). That call is the only creation of a response generator in the log.
\<close>

theorem num_choices_passed:
  assumes "llm_engine_initialized self"
    and "normalize_prompt (prompt request) = Inr prompts"
    and "to_sampling_params E request = Inr sp"
    and "to_llm_disaggregated_params E request = Inr dp"
    and "length promises = length prompts"
    and "\<forall>i<length prompts.
           generate_async E i (prompts ! i) sp (stream request) dp = Inr (promises ! i)"
    and "merge_promises E promises = Inr generator"
  shows "1 \<le> length prompts \<and>
    (n request = None \<longrightarrow>
       snd (generate_completion E self request) =
         (case create_completion_generator E request generator (int (length prompts)) of
            Inl e \<Rightarrow> ([], Raised e)
          | Inr response_generator \<Rightarrow> stream_completion E response_generator) \<and>
       List.map_filter passed_num_choices
         (new_calls self (fst (generate_completion E self request)))
         = [int (length prompts)]) \<and>
    (n request = Some m \<longrightarrow>
       snd (generate_completion E self request) =
         (case create_completion_generator E request generator (int (length prompts) * m) of
            Inl e \<Rightarrow> ([], Raised e)
          | Inr response_generator \<Rightarrow> stream_completion E response_generator) \<and>
       List.map_filter passed_num_choices
         (new_calls self (fst (generate_completion E self request)))
         = [int (length prompts) * m]) \<and>
    CreateCompletionGenerator request generator (num_choices prompts (n request))
      \<in> set (new_calls self (fst (generate_completion E self request)))"
proof -
  let ?cs = "map (\<lambda>p. GenerateAsync p sp (stream request) dp) prompts"
  have inv: "invoke_all E request sp dp prompts [] = (Inr promises, ?cs)"
    using invoke_all_returns [OF assms(5), of E "[]" sp request dp] assms(6) by simp
  note fmt = generate_completion_format [OF assms(1-4) inv assms(7)]
  have "List.map_filter passed_num_choices ?cs = []"
    by (simp add: List.map_filter_def)
  then have passed: "List.map_filter passed_num_choices
        (new_calls self (fst (generate_completion E self request)))
      = [num_choices prompts (n request)]"
    unfolding fmt(2) by (simp add: List.map_filter_def)
  have made: "CreateCompletionGenerator request generator (num_choices prompts (n request))
      \<in> set (new_calls self (fst (generate_completion E self request)))"
    unfolding fmt(2) by simp
  have len: "1 \<le> length prompts"
    using normalize_prompt_length [OF assms(2)] .
  have none: "n request = None \<Longrightarrow> num_choices prompts (n request) = int (length prompts)"
    and some: "n request = Some m \<Longrightarrow> num_choices prompts (n request) = int (length prompts) * m"
    by (simp_all add: num_choices_def)
  from fmt(1) passed made len none some show ?thesis
    by (cases "n request") auto
qed

theorem num_choices_passed_witness:
  "llm_engine_initialized idle \<and>
   normalize_prompt (prompt hello_world) = Inr [PyStr ''hello'', PyStr ''world''] \<and>
   to_sampling_params steady hello_world = Inr ''sampling'' \<and>
   to_llm_disaggregated_params steady hello_world = Inr None \<and>
   length [0, 1 :: nat] = length [PyStr ''hello'', PyStr ''world''] \<and>
   generate_async steady 0 (PyStr ''hello'') ''sampling'' (stream hello_world) None = Inr 0 \<and>
   generate_async steady 1 (PyStr ''world'') ''sampling'' (stream hello_world) None = Inr 1 \<and>
   merge_promises steady [0, 1] = Inr ''merged'' \<and>
   n hello_world = Some 2 \<and>
   create_completion_generator steady hello_world ''merged'' 4 = Inr (Yield ''{}'' Stop) \<and>
   snd (generate_completion steady idle hello_world) = ([''{}''], Finished) \<and>
   List.map_filter passed_num_choices
     (new_calls idle (fst (generate_completion steady idle hello_world))) = [4]"
proof -
  have h: "llm_engine_initialized idle"
    "normalize_prompt (prompt hello_world) = Inr [PyStr ''hello'', PyStr ''world'']"
    "to_sampling_params steady hello_world = Inr ''sampling''"
    "to_llm_disaggregated_params steady hello_world = Inr None"
    "length [0, 1 :: nat] = length [PyStr ''hello'', PyStr ''world'']"
    by (simp_all add: idle_def hello_world_def steady_def)
  have calls: "\<forall>i<length [PyStr ''hello'', PyStr ''world''].
      generate_async steady i ([PyStr ''hello'', PyStr ''world''] ! i) ''sampling''
        (stream hello_world) None = Inr ([0, 1] ! i)"
    by (auto simp: steady_def less_Suc_eq)
  have k: "merge_promises steady [0, 1] = Inr ''merged''" "n hello_world = Some 2"
    "create_completion_generator steady hello_world ''merged'' 4 = Inr (Yield ''{}'' Stop)"
    "json_loads steady ''{}'' = Inr ''{}''"
    by (simp_all add: hello_world_def steady_def)
  have each:
    "generate_async steady 0 (PyStr ''hello'') ''sampling'' (stream hello_world) None = Inr 0"
    "generate_async steady 1 (PyStr ''world'') ''sampling'' (stream hello_world) None = Inr 1"
    by (simp_all add: steady_def)
  from num_choices_passed [OF h calls k(1), of 2] h each k show ?thesis
    by simp
qed

subsection \<open>The shared parameters\<close>

text \<open>
  Claim C8. Take a completion request that normalizes to \<open>prompts\<close> and whose derived
  sampling parameters and disaggregated-parameters block are \<open>sp\<close> and \<open>dp\<close>, each derived
  by its one call before the loop. The handler then calls \<open>generate_async\<close> for the
  prompts in prompt order, each time with that same \<open>sp\<close> and \<open>dp\<close> and the request's
  \<open>stream\<close> flag, and goes on from what those calls answer. If the call for prompt \<open>j\<close> is
  the first to raise, the request ends with that exception, after the calls for the
  prompts up to \<open>j\<close>. If every call returns its promise, those \<open>K\<close> promises, in order,
  are what is merged: an exception of the merge ends the request, and a merged generator
  is what the response generator is created from. In the log, the derivations and
  invocations of the request are one derivation of each parameter followed by the
  invocations, all \<open>K\<close> of them when no call raises and a prefix of them otherwise.
\<close>

theorem shared_parameters_forwarded:
  assumes "llm_engine_initialized self"
    and "normalize_prompt (prompt request) = Inr prompts"
    and "to_sampling_params E request = Inr sp"
    and "to_llm_disaggregated_params E request = Inr dp"
  shows
   "(j < length prompts \<and>
     (\<forall>i<j. \<not> isl (generate_async E i (prompts ! i) sp (stream request) dp)) \<and>
     generate_async E j (prompts ! j) sp (stream request) dp = Inl e \<longrightarrow>
       generate_completion E self request =
         (self\<lparr>ongoing_request_count := ongoing_request_count self + 1,
                calls := calls self @ [ToSamplingParams, ToLlmDisaggregatedParams] @
                  map (\<lambda>p. GenerateAsync p sp (stream request) dp) (take (Suc j) prompts)\<rparr>,
          [], Raised e)) \<and>
    (length promises = length prompts \<and>
     (\<forall>i<length prompts.
        generate_async E i (prompts ! i) sp (stream request) dp = Inr (promises ! i)) \<longrightarrow>
       (merge_promises E promises = Inl e \<longrightarrow>
          generate_completion E self request =
            (self\<lparr>ongoing_request_count := ongoing_request_count self + 1,
                   calls := calls self @ [ToSamplingParams, ToLlmDisaggregatedParams] @
                     map (\<lambda>p. GenerateAsync p sp (stream request) dp) prompts @
                     [MergePromises promises]\<rparr>,
             [], Raised e)) \<and>
       (merge_promises E promises = Inr generator \<longrightarrow>
          snd (generate_completion E self request) =
            (case create_completion_generator E request generator
                    (num_choices prompts (n request)) of
               Inl e \<Rightarrow> ([], Raised e)
             | Inr response_generator \<Rightarrow> stream_completion E response_generator)) \<and>
       filter derives_or_invokes
         (new_calls self (fst (generate_completion E self request))) =
         [ToSamplingParams, ToLlmDisaggregatedParams] @
         map (\<lambda>p. GenerateAsync p sp (stream request) dp) prompts) \<and>
    prefix (filter derives_or_invokes
              (new_calls self (fst (generate_completion E self request))))
      ([ToSamplingParams, ToLlmDisaggregatedParams] @
       map (\<lambda>p. GenerateAsync p sp (stream request) dp) prompts)"
proof -
  let ?call = "\<lambda>p. GenerateAsync p sp (stream request) dp"
  have A: "generate_completion E self request =
         (self\<lparr>ongoing_request_count := ongoing_request_count self + 1,
                calls := calls self @ [ToSamplingParams, ToLlmDisaggregatedParams] @
                  map ?call (take (Suc j) prompts)\<rparr>,
          [], Raised e)"
    if "j < length prompts"
      "\<forall>i<j. \<not> isl (generate_async E i (prompts ! i) sp (stream request) dp)"
      "generate_async E j (prompts ! j) sp (stream request) dp = Inl e"
  proof -
    have "invoke_all E request sp dp prompts [] = (Inl e, map ?call (take (Suc j) prompts))"
      using invoke_all_raises [of j prompts E "[]" sp request dp e] that by simp
    from generate_completion_invocation_raises [OF assms this] show ?thesis .
  qed
  obtain res cs where inv: "invoke_all E request sp dp prompts [] = (res, cs)"
    by (cases "invoke_all E request sp dp prompts []")
  note ic = invoke_all_calls [OF inv]
  then have pre: "prefix cs (map ?call prompts)"
    by simp
  have fcs: "filter derives_or_invokes cs = cs"
    using filter_invocations [OF pre] .
  have "\<exists>rest. new_calls self (fst (generate_completion E self request)) =
           [ToSamplingParams, ToLlmDisaggregatedParams] @ cs @ rest \<and>
           filter derives_or_invokes rest = []"
    using assms inv
    by (auto simp: generate_completion_def new_calls_def Let_def
             split: sum.splits prod.splits outcome.splits)
  then obtain rest where
    new: "new_calls self (fst (generate_completion E self request)) =
           [ToSamplingParams, ToLlmDisaggregatedParams] @ cs @ rest"
    and rest: "filter derives_or_invokes rest = []"
    by blast
  have f: "filter derives_or_invokes (new_calls self (fst (generate_completion E self request)))
            = [ToSamplingParams, ToLlmDisaggregatedParams] @ cs"
    unfolding new using fcs rest by simp
  have C: "prefix (filter derives_or_invokes
              (new_calls self (fst (generate_completion E self request))))
      ([ToSamplingParams, ToLlmDisaggregatedParams] @ map ?call prompts)"
    unfolding f using pre by simp
  have B: "(merge_promises E promises = Inl e \<longrightarrow>
          generate_completion E self request =
            (self\<lparr>ongoing_request_count := ongoing_request_count self + 1,
                   calls := calls self @ [ToSamplingParams, ToLlmDisaggregatedParams] @
                     map ?call prompts @ [MergePromises promises]\<rparr>,
             [], Raised e)) \<and>
       (merge_promises E promises = Inr generator \<longrightarrow>
          snd (generate_completion E self request) =
            (case create_completion_generator E request generator
                    (num_choices prompts (n request)) of
               Inl e \<Rightarrow> ([], Raised e)
             | Inr response_generator \<Rightarrow> stream_completion E response_generator)) \<and>
       filter derives_or_invokes
         (new_calls self (fst (generate_completion E self request))) =
         [ToSamplingParams, ToLlmDisaggregatedParams] @ map ?call prompts"
    if "length promises = length prompts"
      "\<forall>i<length prompts.
        generate_async E i (prompts ! i) sp (stream request) dp = Inr (promises ! i)"
  proof -
    have all: "invoke_all E request sp dp prompts [] = (Inr promises, map ?call prompts)"
      using invoke_all_returns [OF that(1), of E "[]" sp request dp] that(2) by simp
    with inv have "cs = map ?call prompts" by simp
    with f generate_completion_merge_raises [OF assms all]
      generate_completion_format(1) [OF assms all]
    show ?thesis by simp
  qed
  from A B C show ?thesis by blast
qed

theorem shared_parameters_forwarded_witness:
  "llm_engine_initialized idle \<and>
   normalize_prompt (prompt hello_world) = Inr [PyStr ''hello'', PyStr ''world''] \<and>
   to_sampling_params steady hello_world = Inr ''sampling'' \<and>
   to_llm_disaggregated_params steady hello_world = Inr None \<and>
   length [0, 1 :: nat] = length [PyStr ''hello'', PyStr ''world''] \<and>
   generate_async steady 0 (PyStr ''hello'') ''sampling'' (stream hello_world) None = Inr 0 \<and>
   generate_async steady 1 (PyStr ''world'') ''sampling'' (stream hello_world) None = Inr 1 \<and>
   merge_promises steady [0, 1] = Inr ''merged'' \<and>
   snd (generate_completion steady idle hello_world) = ([''{}''], Finished) \<and>
   filter derives_or_invokes (new_calls idle (fst (generate_completion steady idle hello_world)))
     = [ToSamplingParams, ToLlmDisaggregatedParams,
        GenerateAsync (PyStr ''hello'') ''sampling'' True None,
        GenerateAsync (PyStr ''world'') ''sampling'' True None] \<and>
   to_sampling_params faulty hello_world = Inr ''sampling'' \<and>
   to_llm_disaggregated_params faulty hello_world = Inr None \<and>
   generate_async faulty 0 ([PyStr ''hello'', PyStr ''world''] ! 0) ''sampling''
     (stream hello_world) None = Inl (Exn CppExecutorError ''executor failed'' None) \<and>
   generate_completion faulty idle hello_world =
     (idle\<lparr>ongoing_request_count := 1,
            calls := [ToSamplingParams, ToLlmDisaggregatedParams,
                      GenerateAsync (PyStr ''hello'') ''sampling'' True None]\<rparr>,
      [], Raised (Exn CppExecutorError ''executor failed'' None))"
proof -
  have h: "llm_engine_initialized idle"
    "normalize_prompt (prompt hello_world) = Inr [PyStr ''hello'', PyStr ''world'']"
    "to_sampling_params steady hello_world = Inr ''sampling''"
    "to_llm_disaggregated_params steady hello_world = Inr None"
    by (simp_all add: idle_def hello_world_def steady_def)
  have len: "length [0, 1 :: nat] = length [PyStr ''hello'', PyStr ''world'']"
    by simp
  have calls: "\<forall>i<length [PyStr ''hello'', PyStr ''world''].
      generate_async steady i ([PyStr ''hello'', PyStr ''world''] ! i) ''sampling''
        (stream hello_world) None = Inr ([0, 1] ! i)"
    by (auto simp: steady_def less_Suc_eq)
  have k: "merge_promises steady [0, 1] = Inr ''merged''" "n hello_world = Some 2"
    "create_completion_generator steady hello_world ''merged'' 4 = Inr (Yield ''{}'' Stop)"
    "json_loads steady ''{}'' = Inr ''{}''" "stream hello_world = True"
    by (simp_all add: hello_world_def steady_def)
  have f: "to_sampling_params faulty hello_world = Inr ''sampling''"
    "to_llm_disaggregated_params faulty hello_world = Inr None"
    "generate_async faulty 0 ([PyStr ''hello'', PyStr ''world''] ! 0) ''sampling''
       (stream hello_world) None = Inl (Exn CppExecutorError ''executor failed'' None)"
    by (simp_all add: faulty_def steady_def)
  have i: "ongoing_request_count idle = 0" "calls idle = []"
    by (simp_all add: idle_def)
  from shared_parameters_forwarded [OF h, where promises = "[0, 1]"
      and generator = "''merged''"] len calls k
  have good: "snd (generate_completion steady idle hello_world) = ([''{}''], Finished)"
    "filter derives_or_invokes (new_calls idle (fst (generate_completion steady idle hello_world)))
     = [ToSamplingParams, ToLlmDisaggregatedParams,
        GenerateAsync (PyStr ''hello'') ''sampling'' True None,
        GenerateAsync (PyStr ''world'') ''sampling'' True None]"
    by (simp_all add: num_choices_def)
  from shared_parameters_forwarded [OF h(1,2) f(1,2), where j = 0
      and e = "Exn CppExecutorError ''executor failed'' None"] f(3) i k(5)
  have bad: "generate_completion faulty idle hello_world =
     (idle\<lparr>ongoing_request_count := 1,
            calls := [ToSamplingParams, ToLlmDisaggregatedParams,
                      GenerateAsync (PyStr ''hello'') ''sampling'' True None]\<rparr>,
      [], Raised (Exn CppExecutorError ''executor failed'' None))"
    by simp
  have each:
    "generate_async steady 0 (PyStr ''hello'') ''sampling'' (stream hello_world) None = Inr 0"
    "generate_async steady 1 (PyStr ''world'') ''sampling'' (stream hello_world) None = Inr 1"
    by (simp_all add: steady_def)
  from h len each k(1) f good bad show ?thesis
    by simp
qed

subsection \<open>The counter of ongoing requests\<close>

text \<open>
  Once a request is accepted, the counter afterwards is the counter before when the
  handler finishes normally, and one more when an exception leaves it: line 147 is not in
  a \<open>finally\<close> clause.
\<close>

lemma ongoing_request_count_after:
  assumes "llm_engine_initialized self"
    and "generate_completion E self request = (self', ys, out)"
  shows "ongoing_request_count self' =
           ongoing_request_count self + (case out of Finished \<Rightarrow> 0 | Raised e \<Rightarrow> 1)"
  using assms
  by (auto simp: generate_completion_def Let_def split: sum.splits prod.splits outcome.splits)

text \<open>
  Claim C1 says that the counter of ongoing requests is back at its value before the
  request on every exit path of the completion handler. The code does not do that. An
  idle engine, with the counter at 0, that receives a request whose prompt is the empty
  list ends the request with the \<open>IndexError\<close> of line 119 and the counter at 1; and a
  request for which the engine raises on every \<open>generate_async\<close> call leaves the counter
  at 1 as well.
\<close>

theorem ongoing_request_count_leaks:
  "ongoing_request_count idle = 0 \<and>
   generate_completion steady idle empty_prompt =
     (idle\<lparr>ongoing_request_count := 1\<rparr>, [],
      Raised (Exn IndexError ''list index out of range'' None)) \<and>
   ongoing_request_count (fst (generate_completion faulty idle hello_world)) = 1 \<and>
   snd (snd (generate_completion faulty idle hello_world)) =
     Raised (Exn CppExecutorError ''executor failed'' None)"
  by (simp add: generate_completion_def idle_def empty_prompt_def hello_world_def
        faulty_def steady_def)

section \<open>The chat handler\<close>

text \<open>
  The loops of prompt construction end with the first exception a message or a tool
  raises; a response stream that yields \<open>ys\<close> and then raises is yielded up to there.
\<close>

lemma build_conversation_raises:
  "k < length ms \<Longrightarrow>
   \<forall>i<k. \<not> isl (parse_chat_message_content E (ms ! i)) \<Longrightarrow>
   parse_chat_message_content E (ms ! k) = Inl e \<Longrightarrow>
   build_conversation E ms conversation = Inl e"
proof (induction ms arbitrary: k conversation)
  case Nil
  then show ?case by simp
next
  case (Cons m ms)
  show ?case
  proof (cases k)
    case 0
    with Cons.prems show ?thesis by simp
  next
    case (Suc j)
    from Cons.prems(2) Suc have "\<not> isl (parse_chat_message_content E m)"
      by fastforce
    then obtain parts where first: "parse_chat_message_content E m = Inr parts"
      by (cases "parse_chat_message_content E m") auto
    have "\<forall>i<j. \<not> isl (parse_chat_message_content E (ms ! i))"
      using Cons.prems(2) Suc by fastforce
    moreover have "j < length ms" "parse_chat_message_content E (ms ! j) = Inl e"
      using Cons.prems(1,3) Suc by simp_all
    ultimately have "build_conversation E ms (conversation @ parts) = Inl e"
      using Cons.IH by blast
    with first show ?thesis by simp
  qed
qed

lemma dump_all_raises:
  "k < length ts \<Longrightarrow>
   \<forall>i<k. \<not> isl (model_dump E (ts ! i)) \<Longrightarrow>
   model_dump E (ts ! k) = Inl e \<Longrightarrow>
   dump_all E ts = Inl e"
proof (induction ts arbitrary: k)
  case Nil
  then show ?case by simp
next
  case (Cons t ts)
  show ?case
  proof (cases k)
    case 0
    with Cons.prems show ?thesis by simp
  next
    case (Suc j)
    from Cons.prems(2) Suc have "\<not> isl (model_dump E t)"
      by fastforce
    then obtain d where first: "model_dump E t = Inr d"
      by (cases "model_dump E t") auto
    have "\<forall>i<j. \<not> isl (model_dump E (ts ! i))"
      using Cons.prems(2) Suc by fastforce
    moreover have "j < length ts" "model_dump E (ts ! j) = Inl e"
      using Cons.prems(1,3) Suc by simp_all
    ultimately have "dump_all E ts = Inl e"
      using Cons.IH by blast
    with first show ?thesis by simp
  qed
qed

lemma stream_chat_raises: "stream_chat (foldr Yield ys (Raise e)) = (ys, Raised e)"
  by (induction ys) simp_all

lemma chat_except_Raised:
  "chat_except (self, ys, Raised e) = fault_or_failure self ys e"
  by (simp add: chat_except_def fault_or_failure_def GenerationFailedError_def log_call_def)

text \<open>Without streaming, the \<open>try\<close> body yields nothing and always ends in an exception.\<close>

lemma chat_try_not_streaming:
  "\<not> stream request \<Longrightarrow> llm_engine_initialized self \<Longrightarrow>
   \<exists>self1 e. chat_try E self request rid = (self1, [], Raised e) \<and>
     (calls self1 = calls self \<or> (\<exists>c. calls self1 = calls self @ [c]))"
  by (auto simp: chat_try_def Let_def split: sum.splits)

subsection \<open>Executor faults and other exceptions\<close>

text \<open>
  Claim C4. In the chat handler of an initialized engine, an exception \<open>e\<close> raised in
  prompt construction (by the parsing of a message, the dump of a tool, the chat template
  or the derivation of the sampling parameters), in the invocation of the engine, or in
  streaming (by the creation of the response stream or by the stream itself, after it
  yielded \<open>ys\<close>) is handled in one of two ways. If \<open>e\<close> is an executor fault, an instance of
  \<open>CppExecutorError\<close> or of a class deriving from it, the handler raises \<open>SIGINT\<close> in the
  process and ends without an error for the request. Any other \<open>e\<close> reaches the caller as
  a \<open>RuntimeError\<close> whose text is \<open>Failed to generate: \<close> followed by the text of \<open>e\<close> and
  whose context is \<open>e\<close>. In both, what was yielded before stays yielded.
\<close>

theorem chat_exceptions:
  assumes "llm_engine_initialized self"
  shows
   "(k < length (messages request) \<and>
     (\<forall>i<k. \<not> isl (parse_chat_message_content E (messages request ! i))) \<and>
     parse_chat_message_content E (messages request ! k) = Inl e \<longrightarrow>
       generate_chat E self request = fault_or_failure self [] e) \<and>
    (build_conversation E (messages request) [] = Inr conversation \<longrightarrow>
      (tools request = Some ts \<and> k < length ts \<and>
       (\<forall>i<k. \<not> isl (model_dump E (ts ! i))) \<and> model_dump E (ts ! k) = Inl e \<longrightarrow>
         generate_chat E self request = fault_or_failure self [] e) \<and>
      (tool_dicts E request = Inr dicts \<longrightarrow>
        (apply_chat_template E conversation (add_generation_prompt request) dicts
           (documents request) (chat_template request)
           (case chat_template_kwargs request of None \<Rightarrow> [] | Some kw \<Rightarrow> kw) = Inl e \<longrightarrow>
           generate_chat E self request = fault_or_failure self [] e) \<and>
        (apply_chat_template E conversation (add_generation_prompt request) dicts
           (documents request) (chat_template request)
           (case chat_template_kwargs request of None \<Rightarrow> [] | Some kw \<Rightarrow> kw) = Inr prompt_text \<longrightarrow>
          (chat_to_sampling_params E request = Inl e \<longrightarrow>
             generate_chat E self request = fault_or_failure self [] e) \<and>
          (chat_to_sampling_params E request = Inr sp \<longrightarrow>
            (generate_async E 0 (PyStr prompt_text) sp (stream request) None = Inl e \<longrightarrow>
               generate_chat E self request =
                 fault_or_failure
                   (self\<lparr>calls := calls self @
                      [GenerateAsync (PyStr prompt_text) sp (stream request) None]\<rparr>) [] e) \<and>
            (generate_async E 0 (PyStr prompt_text) sp (stream request) None = Inr promise \<and>
             stream request \<longrightarrow>
              (stream_response E request (uuid4 E) conversation promise = Inl e \<longrightarrow>
                 generate_chat E self request =
                   fault_or_failure
                     (self\<lparr>calls := calls self @
                        [GenerateAsync (PyStr prompt_text) sp True None,
                         StreamResponse (uuid4 E) conversation promise]\<rparr>) [] e) \<and>
              (stream_response E request (uuid4 E) conversation promise =
                 Inr (foldr Yield ys (Raise e)) \<longrightarrow>
                 generate_chat E self request =
                   fault_or_failure
                     (self\<lparr>calls := calls self @
                        [GenerateAsync (PyStr prompt_text) sp True None,
                         StreamResponse (uuid4 E) conversation promise]\<rparr>) ys e)))))) \<and>
    (subclass_of (cls e) CppExecutorError \<longrightarrow>
       fault_or_failure self ys e =
         (self\<lparr>calls := calls self @ [RaiseSignalSIGINT]\<rparr>, ys, Finished)) \<and>
    (\<not> subclass_of (cls e) CppExecutorError \<longrightarrow>
       fault_or_failure self ys e =
         (self, ys,
          Raised (Exn RuntimeError (''Failed to generate: '' @ exn_str e) (Some e))))"
proof -
  have g: "generate_chat E self request = chat_except (chat_try E self request (uuid4 E))"
    using assms by (simp add: generate_chat_def)
  have 1: "generate_chat E self request = fault_or_failure self [] e"
    if "k < length (messages request)"
      "\<forall>i<k. \<not> isl (parse_chat_message_content E (messages request ! i))"
      "parse_chat_message_content E (messages request ! k) = Inl e"
    unfolding g using build_conversation_raises [OF that, of "[]"]
    by (simp add: chat_try_def chat_except_Raised)
  have 2: "generate_chat E self request = fault_or_failure self [] e"
    if "build_conversation E (messages request) [] = Inr conversation"
      "tools request = Some ts" "k < length ts"
      "\<forall>i<k. \<not> isl (model_dump E (ts ! i))" "model_dump E (ts ! k) = Inl e"
    unfolding g using dump_all_raises [OF that(3-5)] that(1,2)
    by (simp add: chat_try_def tool_dicts_def chat_except_Raised)
  have 3: "generate_chat E self request = fault_or_failure self [] e"
    if "build_conversation E (messages request) [] = Inr conversation"
      "tool_dicts E request = Inr dicts"
      "apply_chat_template E conversation (add_generation_prompt request) dicts
           (documents request) (chat_template request)
           (case chat_template_kwargs request of None \<Rightarrow> [] | Some kw \<Rightarrow> kw) = Inl e"
    unfolding g using that by (simp add: chat_try_def chat_except_Raised)
  have 4: "(chat_to_sampling_params E request = Inl e \<longrightarrow>
             generate_chat E self request = fault_or_failure self [] e) \<and>
          (chat_to_sampling_params E request = Inr sp \<longrightarrow>
            (generate_async E 0 (PyStr prompt_text) sp (stream request) None = Inl e \<longrightarrow>
               generate_chat E self request =
                 fault_or_failure
                   (self\<lparr>calls := calls self @
                      [GenerateAsync (PyStr prompt_text) sp (stream request) None]\<rparr>) [] e) \<and>
            (generate_async E 0 (PyStr prompt_text) sp (stream request) None = Inr promise \<and>
             stream request \<longrightarrow>
              (stream_response E request (uuid4 E) conversation promise = Inl e \<longrightarrow>
                 generate_chat E self request =
                   fault_or_failure
                     (self\<lparr>calls := calls self @
                        [GenerateAsync (PyStr prompt_text) sp True None,
                         StreamResponse (uuid4 E) conversation promise]\<rparr>) [] e) \<and>
              (stream_response E request (uuid4 E) conversation promise =
                 Inr (foldr Yield ys (Raise e)) \<longrightarrow>
                 generate_chat E self request =
                   fault_or_failure
                     (self\<lparr>calls := calls self @
                        [GenerateAsync (PyStr prompt_text) sp True None,
                         StreamResponse (uuid4 E) conversation promise]\<rparr>) ys e)))"
    if "build_conversation E (messages request) [] = Inr conversation"
      "tool_dicts E request = Inr dicts"
      "apply_chat_template E conversation (add_generation_prompt request) dicts
           (documents request) (chat_template request)
           (case chat_template_kwargs request of None \<Rightarrow> [] | Some kw \<Rightarrow> kw) = Inr prompt_text"
    unfolding g using that assms
    by (auto simp: chat_try_def chat_except_Raised stream_chat_raises log_call_def)
  have 5: "(subclass_of (cls e) CppExecutorError \<longrightarrow>
       fault_or_failure self ys e =
         (self\<lparr>calls := calls self @ [RaiseSignalSIGINT]\<rparr>, ys, Finished)) \<and>
    (\<not> subclass_of (cls e) CppExecutorError \<longrightarrow>
       fault_or_failure self ys e =
         (self, ys,
          Raised (Exn RuntimeError (''Failed to generate: '' @ exn_str e) (Some e))))"
    by (simp add: fault_or_failure_def GenerationFailedError_def)
  from 1 2 3 4 5 show ?thesis by blast
qed

theorem chat_exceptions_witness:
  "llm_engine_initialized idle \<and>
   build_conversation faulty (messages (chat True)) [] = Inr [''hi''] \<and>
   tool_dicts faulty (chat True) = Inr None \<and>
   chat_to_sampling_params faulty (chat True) = Inr ''sampling'' \<and>
   generate_async faulty 0 (PyStr ''hi'') ''sampling'' (stream (chat True)) None =
     Inl (Exn CppExecutorError ''executor failed'' None) \<and>
   generate_chat faulty idle (chat True) =
     (idle\<lparr>calls := [GenerateAsync (PyStr ''hi'') ''sampling'' True None,
                      RaiseSignalSIGINT]\<rparr>, [], Finished) \<and>
   apply_chat_template garbled [''hi''] True None None None [] =
     Inl (Exn (Named ''TemplateError'') ''bad template'' None) \<and>
   generate_chat garbled idle (chat True) =
     (idle, [],
      Raised (Exn RuntimeError ''Failed to generate: bad template''
                (Some (Exn (Named ''TemplateError'') ''bad template'' None)))) \<and>
   stream_response flaky (chat True) (uuid4 flaky) [''hi''] 0 =
     Inr (foldr Yield [''delta-1''] (Raise (Exn (Named ''ValueError'') ''bad chunk'' None))) \<and>
   generate_chat flaky idle (chat True) =
     (idle\<lparr>calls := [GenerateAsync (PyStr ''hi'') ''sampling'' True None,
                      StreamResponse ''request-1'' [''hi''] 0]\<rparr>, [''delta-1''],
      Raised (Exn RuntimeError ''Failed to generate: bad chunk''
                (Some (Exn (Named ''ValueError'') ''bad chunk'' None))))"
proof -
  have init: "llm_engine_initialized idle" "calls idle = []"
    by (simp_all add: idle_def)
  have request: "messages (chat True) = [''hi'']" "tools (chat True) = None"
    "add_generation_prompt (chat True)" "documents (chat True) = None"
    "chat_template (chat True) = None" "chat_template_kwargs (chat True) = None"
    "stream (chat True)"
    by (simp_all add: chat_def)
  have fault: "build_conversation faulty (messages (chat True)) [] = Inr [''hi'']"
    "tool_dicts faulty (chat True) = Inr None"
    "apply_chat_template faulty [''hi''] True None None None [] = Inr ''hi''"
    "chat_to_sampling_params faulty (chat True) = Inr ''sampling''"
    "generate_async faulty 0 (PyStr ''hi'') ''sampling'' (stream (chat True)) None =
       Inl (Exn CppExecutorError ''executor failed'' None)"
    by (simp_all add: faulty_def steady_def chat_def tool_dicts_def)
  have garble: "build_conversation garbled (messages (chat True)) [] = Inr [''hi'']"
    "tool_dicts garbled (chat True) = Inr None"
    "apply_chat_template garbled [''hi''] True None None None [] =
       Inl (Exn (Named ''TemplateError'') ''bad template'' None)"
    by (simp_all add: garbled_def steady_def chat_def tool_dicts_def)
  have flake: "build_conversation flaky (messages (chat True)) [] = Inr [''hi'']"
    "tool_dicts flaky (chat True) = Inr None"
    "apply_chat_template flaky [''hi''] True None None None [] = Inr ''hi''"
    "chat_to_sampling_params flaky (chat True) = Inr ''sampling''"
    "generate_async flaky 0 (PyStr ''hi'') ''sampling'' (stream (chat True)) None = Inr 0"
    "uuid4 flaky = ''request-1''"
    "stream_response flaky (chat True) (uuid4 flaky) [''hi''] 0 =
       Inr (foldr Yield [''delta-1''] (Raise (Exn (Named ''ValueError'') ''bad chunk'' None)))"
    by (simp_all add: flaky_def steady_def chat_def tool_dicts_def)
  from chat_exceptions [OF init(1), where E = faulty and request = "chat True"
      and conversation = "[''hi'']" and dicts = None and prompt_text = "''hi''"
      and sp = "''sampling''" and e = "Exn CppExecutorError ''executor failed'' None"]
    fault request init(2)
  have a: "generate_chat faulty idle (chat True) =
     (idle\<lparr>calls := [GenerateAsync (PyStr ''hi'') ''sampling'' True None,
                      RaiseSignalSIGINT]\<rparr>, [], Finished)"
    by (simp add: fault_or_failure_def)
  from chat_exceptions [OF init(1), where E = garbled and request = "chat True"
      and conversation = "[''hi'']" and dicts = None
      and e = "Exn (Named ''TemplateError'') ''bad template'' None"]
    garble request
  have b: "generate_chat garbled idle (chat True) =
     (idle, [],
      Raised (Exn RuntimeError ''Failed to generate: bad template''
                (Some (Exn (Named ''TemplateError'') ''bad template'' None))))"
    by (simp add: fault_or_failure_def GenerationFailedError_def)
  from chat_exceptions [OF init(1), where E = flaky and request = "chat True"
      and conversation = "[''hi'']" and dicts = None and prompt_text = "''hi''"
      and sp = "''sampling''" and promise = 0 and ys = "[''delta-1'']"
      and e = "Exn (Named ''ValueError'') ''bad chunk'' None"]
    flake request init(2)
  have c: "generate_chat flaky idle (chat True) =
     (idle\<lparr>calls := [GenerateAsync (PyStr ''hi'') ''sampling'' True None,
                      StreamResponse ''request-1'' [''hi''] 0]\<rparr>, [''delta-1''],
      Raised (Exn RuntimeError ''Failed to generate: bad chunk''
                (Some (Exn (Named ''ValueError'') ''bad chunk'' None))))"
    by (simp add: fault_or_failure_def GenerationFailedError_def)
  from init(1) fault garble(3) flake(7) a b c show ?thesis
    by simp
qed

subsection \<open>Chat without streaming\<close>

text \<open>
  Claim C5, as stated: a chat request with \<open>stream = false\<close> fails with
  \<open>UnsupportedOperationError\<close>. It does not: line 103 raises that exception inside the \<open>try\<close>
  statement, whose second \<open>except\<close> clause catches it. For an idle engine whose
  collaborators never raise, what the caller gets is the \<open>GenerationFailedError\<close> that
  wraps it.
\<close>

theorem non_streaming_chat_counterexample:
  "llm_engine_initialized idle \<and> \<not> stream (chat False) \<and>
   snd (snd (generate_chat steady idle (chat False))) \<noteq> Raised UnsupportedOperationError \<and>
   snd (snd (generate_chat steady idle (chat False))) =
     Raised (Exn RuntimeError ''Failed to generate: Non-streaming is not supported''
               (Some (Exn RuntimeError ''Non-streaming is not supported'' None)))"
  by (simp add: generate_chat_def chat_except_def chat_try_def steady_def idle_def chat_def
        tool_dicts_def UnsupportedOperationError_def)

text \<open>
  Claim C5, amended. For every chat request with \<open>stream = false\<close> and an initialized
  engine, the chat handler yields no response, and what it raises is never the bare
  \<open>UnsupportedOperationError\<close>. It ends without an exception only after raising \<open>SIGINT\<close>
  for an executor fault. When prompt construction and the engine invocation raise
  nothing, it makes that one engine call and then fails with the \<open>GenerationFailedError\<close>
  that wraps the \<open>UnsupportedOperationError\<close>.
\<close>

theorem non_streaming_chat:
  assumes "llm_engine_initialized self" and "\<not> stream request"
  shows "fst (snd (generate_chat E self request)) = [] \<and>
         snd (snd (generate_chat E self request)) \<noteq> Raised UnsupportedOperationError \<and>
         (snd (snd (generate_chat E self request)) = Finished \<longrightarrow>
            RaiseSignalSIGINT \<in> set (new_calls self (fst (generate_chat E self request)))) \<and>
         (build_conversation E (messages request) [] = Inr conversation \<and>
          tool_dicts E request = Inr dicts \<and>
          apply_chat_template E conversation (add_generation_prompt request) dicts
            (documents request) (chat_template request)
            (case chat_template_kwargs request of None \<Rightarrow> [] | Some kw \<Rightarrow> kw) = Inr text \<and>
          chat_to_sampling_params E request = Inr sp \<and>
          generate_async E 0 (PyStr text) sp False None = Inr promise \<longrightarrow>
          generate_chat E self request =
            (log_call (GenerateAsync (PyStr text) sp False None) self, [],
             Raised (GenerationFailedError UnsupportedOperationError)))"
proof -
  obtain self1 e where t: "chat_try E self request (uuid4 E) = (self1, [], Raised e)"
    and c: "calls self1 = calls self \<or> (\<exists>c. calls self1 = calls self @ [c])"
    using chat_try_not_streaming [OF assms(2,1)] by blast
  have g: "generate_chat E self request =
      (if subclass_of (cls e) CppExecutorError
       then (log_call RaiseSignalSIGINT self1, [], Finished)
       else (self1, [], Raised (GenerationFailedError e)))"
    using assms(1) t by (simp add: generate_chat_def chat_except_def GenerationFailedError_def)
  have 1: "fst (snd (generate_chat E self request)) = []"
    unfolding g by simp
  have 2: "snd (snd (generate_chat E self request)) \<noteq> Raised UnsupportedOperationError"
    unfolding g by (simp add: GenerationFailedError_def UnsupportedOperationError_def)
  have 3: "snd (snd (generate_chat E self request)) = Finished \<longrightarrow>
            RaiseSignalSIGINT \<in> set (new_calls self (fst (generate_chat E self request)))"
    unfolding g using c by (auto simp: new_calls_def)
  have 4: "build_conversation E (messages request) [] = Inr conversation \<and>
          tool_dicts E request = Inr dicts \<and>
          apply_chat_template E conversation (add_generation_prompt request) dicts
            (documents request) (chat_template request)
            (case chat_template_kwargs request of None \<Rightarrow> [] | Some kw \<Rightarrow> kw) = Inr text \<and>
          chat_to_sampling_params E request = Inr sp \<and>
          generate_async E 0 (PyStr text) sp False None = Inr promise \<longrightarrow>
          generate_chat E self request =
            (log_call (GenerateAsync (PyStr text) sp False None) self, [],
             Raised (GenerationFailedError UnsupportedOperationError))"
    using assms
    by (simp add: generate_chat_def chat_except_def chat_try_def
          GenerationFailedError_def UnsupportedOperationError_def)
  from 1 2 3 4 show ?thesis by blast
qed

theorem non_streaming_chat_witness:
  "llm_engine_initialized idle \<and> \<not> stream (chat False) \<and>
   build_conversation steady (messages (chat False)) [] = Inr [''hi''] \<and>
   tool_dicts steady (chat False) = Inr None \<and>
   apply_chat_template steady [''hi''] (add_generation_prompt (chat False)) None
     (documents (chat False)) (chat_template (chat False))
     (case chat_template_kwargs (chat False) of None \<Rightarrow> [] | Some kw \<Rightarrow> kw) = Inr ''hi'' \<and>
   chat_to_sampling_params steady (chat False) = Inr ''sampling'' \<and>
   generate_async steady 0 (PyStr ''hi'') ''sampling'' False None = Inr 0 \<and>
   generate_chat steady idle (chat False) =
     (log_call (GenerateAsync (PyStr ''hi'') ''sampling'' False None) idle, [],
      Raised (GenerationFailedError UnsupportedOperationError)) \<and>
   fst (snd (generate_chat steady idle (chat False))) = []"
proof -
  have h: "llm_engine_initialized idle" "\<not> stream (chat False)"
    by (simp_all add: idle_def chat_def)
  have k: "build_conversation steady (messages (chat False)) [] = Inr [''hi'']"
    "tool_dicts steady (chat False) = Inr None"
    "apply_chat_template steady [''hi''] (add_generation_prompt (chat False)) None
       (documents (chat False)) (chat_template (chat False))
       (case chat_template_kwargs (chat False) of None \<Rightarrow> [] | Some kw \<Rightarrow> kw) = Inr ''hi''"
    "chat_to_sampling_params steady (chat False) = Inr ''sampling''"
    "generate_async steady 0 (PyStr ''hi'') ''sampling'' False None = Inr 0"
    by (simp_all add: steady_def chat_def tool_dicts_def)
  from non_streaming_chat [OF h, of steady "[''hi'']" None "''hi''" "''sampling''" 0] h k
  show ?thesis by simp
qed

section \<open>The prefill handler\<close>

lemma log_prefill_fields [simp]:
  "loaded_metadata (log_prefill c self) = loaded_metadata self"
  "prefill_calls (log_prefill c self) = prefill_calls self @ [c]"
  by (simp_all add: log_prefill_def)

lemma new_prefill_calls_append [simp]:
  "prefill_calls self' = prefill_calls self @ cs \<Longrightarrow> new_prefill_calls self self' = cs"
  by (simp add: new_prefill_calls_def)

text \<open>
  The handshake only adds to the call log; it never calls the engine's \<open>generate\<close>, and it
  asks the store at most once.
\<close>

lemma load_nixl_metadata_calls:
  "load_nixl_metadata E self eid = (self1, r) \<Longrightarrow>
     \<exists>cs. prefill_calls self1 = prefill_calls self @ cs \<and>
          List.map_filter generate_params cs = [] \<and> store_gets eid cs \<le> 1"
  by (auto simp: load_nixl_metadata_def Let_def List.map_filter_def store_gets_def
           split: if_splits sum.splits)

subsection \<open>One token for each prefill\<close>

text \<open>
  Claim C9. For every inbound prefill request that decodes to \<open>request\<close>, the sampling
  parameters the handler invokes the engine with are the request's with \<open>max_tokens\<close> and
  \<open>min_tokens\<close> overwritten by 1, whatever the decoded request carried. When the metadata
  handshake completes, the handler's result is the result of the engine's \<open>generate\<close>
  applied to the request's identifier and prompt tokens, those overwritten parameters and
  the remote-prefill parameters, with one bare yield for each output. When the handshake
  fails, the request ends with its exception and the engine is not invoked. In the log,
  every \<open>generate\<close> call carries \<open>max_tokens = 1\<close> and \<open>min_tokens = 1\<close> and the request's
  other parameters untouched, and there is exactly one when the handshake completes.
\<close>

theorem prefill_one_token:
  assumes "msgspec_decode E raw_request = Inr request"
  shows
   "max_tokens ((sampling_params request)\<lparr>max_tokens := Some 1, min_tokens := 1\<rparr>) = Some 1 \<and>
    min_tokens ((sampling_params request)\<lparr>max_tokens := Some 1, min_tokens := 1\<rparr>) = 1 \<and>
    (load_nixl_metadata E self (engine_id request) = (self1, None) \<longrightarrow>
       prefill_generate E self raw_request =
         (log_prefill
            (EngineGenerate (request_id request) (prompt_token_ids request)
               ((sampling_params request)\<lparr>max_tokens := Some 1, min_tokens := 1\<rparr>)
               \<lparr>is_remote_decode = True, decode_block_ids = block_ids request,
                decode_engine_id = engine_id request\<rparr>) self1,
          case engine_generate E (request_id request) (prompt_token_ids request)
                 ((sampling_params request)\<lparr>max_tokens := Some 1, min_tokens := 1\<rparr>)
                 \<lparr>is_remote_decode = True, decode_block_ids = block_ids request,
                  decode_engine_id = engine_id request\<rparr> of
            Inl e \<Rightarrow> ([], Raised e)
          | Inr outputs \<Rightarrow> stream_prefill outputs)) \<and>
    (load_nixl_metadata E self (engine_id request) = (self1, Some e) \<longrightarrow>
       prefill_generate E self raw_request = (self1, [], Raised e)) \<and>
    list_all (\<lambda>sp. max_tokens sp = Some 1 \<and> min_tokens sp = 1 \<and>
                  other_params sp = other_params (sampling_params request))
      (List.map_filter generate_params
         (new_prefill_calls self (fst (prefill_generate E self raw_request)))) \<and>
    (snd (load_nixl_metadata E self (engine_id request)) = None \<longrightarrow>
       List.map_filter generate_params
         (new_prefill_calls self (fst (prefill_generate E self raw_request)))
       = [(sampling_params request)\<lparr>max_tokens := Some 1, min_tokens := 1\<rparr>])"
proof -
  have run: "load_nixl_metadata E self (engine_id request) = (self1, None) \<longrightarrow>
       prefill_generate E self raw_request =
         (log_prefill
            (EngineGenerate (request_id request) (prompt_token_ids request)
               ((sampling_params request)\<lparr>max_tokens := Some 1, min_tokens := 1\<rparr>)
               \<lparr>is_remote_decode = True, decode_block_ids = block_ids request,
                decode_engine_id = engine_id request\<rparr>) self1,
          case engine_generate E (request_id request) (prompt_token_ids request)
                 ((sampling_params request)\<lparr>max_tokens := Some 1, min_tokens := 1\<rparr>)
                 \<lparr>is_remote_decode = True, decode_block_ids = block_ids request,
                  decode_engine_id = engine_id request\<rparr> of
            Inl e \<Rightarrow> ([], Raised e)
          | Inr outputs \<Rightarrow> stream_prefill outputs)"
    using assms
    by (auto simp: prefill_generate_def Let_def split: sum.splits prod.splits)
  have stop: "load_nixl_metadata E self (engine_id request) = (self1, Some e) \<longrightarrow>
       prefill_generate E self raw_request = (self1, [], Raised e)"
    using assms by (simp add: prefill_generate_def Let_def)
  obtain self2 r where l: "load_nixl_metadata E self (engine_id request) = (self2, r)"
    by (cases "load_nixl_metadata E self (engine_id request)")
  from load_nixl_metadata_calls [OF l] obtain cs where
    cs: "prefill_calls self2 = prefill_calls self @ cs" "List.map_filter generate_params cs = []"
    by blast
  have logged: "list_all (\<lambda>sp. max_tokens sp = Some 1 \<and> min_tokens sp = 1 \<and>
                  other_params sp = other_params (sampling_params request))
      (List.map_filter generate_params
         (new_prefill_calls self (fst (prefill_generate E self raw_request)))) \<and>
    (snd (load_nixl_metadata E self (engine_id request)) = None \<longrightarrow>
       List.map_filter generate_params
         (new_prefill_calls self (fst (prefill_generate E self raw_request)))
       = [(sampling_params request)\<lparr>max_tokens := Some 1, min_tokens := 1\<rparr>])"
  proof (cases r)
    case (Some e')
    with assms l cs show ?thesis
      by (simp add: prefill_generate_def Let_def)
  next
    case None
    with assms l cs show ?thesis
      by (auto simp: prefill_generate_def Let_def List.map_filter_def
               split: sum.splits prod.splits)
  qed
  from run stop logged show ?thesis by simp
qed

theorem prefill_one_token_witness:
  "msgspec_decode (prefill_env [''decode-1'' \<mapsto> ''nixl''] (Inr ())) ''decode-1''
     = Inr (prefill_request ''decode-1'') \<and>
   max_tokens (sampling_params (prefill_request ''decode-1'')) = Some 128 \<and>
   load_nixl_metadata (prefill_env [''decode-1'' \<mapsto> ''nixl''] (Inr ())) fresh
     (engine_id (prefill_request ''decode-1'')) = (loaded, None) \<and>
   prefill_generate (prefill_env [''decode-1'' \<mapsto> ''nixl''] (Inr ())) fresh ''decode-1'' =
     (log_prefill
        (EngineGenerate ''r1'' [1, 2, 3]
           \<lparr>max_tokens = Some 1, min_tokens = 1, other_params = ''seed''\<rparr>
           \<lparr>is_remote_decode = True, decode_block_ids = [7],
            decode_engine_id = ''decode-1''\<rparr>) loaded,
      [()], Finished)"
proof -
  have h: "msgspec_decode (prefill_env [''decode-1'' \<mapsto> ''nixl''] (Inr ())) ''decode-1''
     = Inr (prefill_request ''decode-1'')"
    by (simp add: prefill_env_def)
  have k: "load_nixl_metadata (prefill_env [''decode-1'' \<mapsto> ''nixl''] (Inr ())) fresh
     (engine_id (prefill_request ''decode-1'')) = (loaded, None)"
    by (simp add: load_nixl_metadata_def prefill_env_def prefill_request_def fresh_def
          loaded_def metadata_store_get_def log_prefill_def)
  have g: "engine_generate (prefill_env [''decode-1'' \<mapsto> ''nixl''] (Inr ())) = 
      (\<lambda>rid toks sp rpp. Inr (Yield () Stop))"
    by (simp add: prefill_env_def)
  from prefill_one_token [OF h, of fresh loaded] h k show ?thesis
    by (simp add: prefill_request_def g)
qed

subsection \<open>The handshake and the store\<close>

text \<open>
  Claim C2, as stated: two sequential handshakes for the same engine identifier fetch its
  metadata from the store at most once. That fails whenever the first handshake fails,
  since the identifier is recorded only after the ingestion: with nothing published for
  \<open>decode-1\<close>, both handshakes ask the store; and with the metadata published but an
  ingestion that raises, both handshakes fetch it.
\<close>

theorem handshake_fetches_counterexample:
  "store_gets ''decode-1''
     (new_prefill_calls fresh
        (fst (load_nixl_metadata (prefill_env Map.empty (Inr ()))
                (fst (load_nixl_metadata (prefill_env Map.empty (Inr ())) fresh ''decode-1''))
                ''decode-1''))) = 2 \<and>
   store_gets ''decode-1''
     (new_prefill_calls fresh
        (fst (load_nixl_metadata
                (prefill_env [''decode-1'' \<mapsto> ''nixl''] (Inl (Exn RuntimeError ''agent'' None)))
                (fst (load_nixl_metadata
                        (prefill_env [''decode-1'' \<mapsto> ''nixl'']
                           (Inl (Exn RuntimeError ''agent'' None)))
                        fresh ''decode-1''))
                ''decode-1''))) = 2"
  by (simp add: load_nixl_metadata_def prefill_env_def metadata_store_get_def fresh_def
        store_gets_def new_prefill_calls_def log_prefill_def)

text \<open>
  Claim C2, amended. If the engine identifier is already in the loaded-metadata set, the
  handshake changes nothing and calls nothing: no store access and no ingestion. For an
  identifier not in the set, the handshake asks the store once, and ingests and records
  the identifier only if the store returned metadata. So when a first handshake for an
  identifier completes (from any state \<open>self0\<close>), a second one for the same identifier
  changes nothing, and the two together asked the store at most once. When the first
  handshake fails, the identifier is not recorded and the second handshake asks the store
  again: the two together asked it twice. And a prefill request of an engine already
  loaded goes to generation at once: its result is that of the engine's \<open>generate\<close>.
\<close>

theorem handshake_loaded_once:
  "(eid \<in> loaded_metadata self \<longrightarrow> load_nixl_metadata E self eid = (self, None)) \<and>
   (eid \<notin> loaded_metadata self0 \<longrightarrow>
      load_nixl_metadata E1 self0 eid =
        (case store_get E1 eid of
           Inl e \<Rightarrow> (log_prefill (StoreGet eid) self0, Some e)
         | Inr metadata \<Rightarrow>
            (case add_remote_nixl_metadata E1 metadata of
               Inl e \<Rightarrow>
                 (log_prefill (AddRemoteNixlMetadata metadata)
                    (log_prefill (StoreGet eid) self0), Some e)
             | Inr u \<Rightarrow>
                 ((log_prefill (AddRemoteNixlMetadata metadata)
                     (log_prefill (StoreGet eid) self0))
                    \<lparr>loaded_metadata := insert eid (loaded_metadata self0)\<rparr>, None)))) \<and>
   (load_nixl_metadata E1 self0 eid = (self1, None) \<longrightarrow>
      load_nixl_metadata E2 self1 eid = (self1, None) \<and>
      store_gets eid (new_prefill_calls self0 (fst (load_nixl_metadata E2 self1 eid))) \<le> 1) \<and>
   (load_nixl_metadata E1 self0 eid = (self1, Some e1) \<longrightarrow>
      eid \<notin> loaded_metadata self1 \<and>
      store_gets eid (new_prefill_calls self1 (fst (load_nixl_metadata E2 self1 eid))) = 1 \<and>
      store_gets eid (new_prefill_calls self0 (fst (load_nixl_metadata E2 self1 eid))) = 2 \<and>
      load_nixl_metadata E2 self1 eid =
        (case store_get E2 eid of
           Inl e \<Rightarrow> (log_prefill (StoreGet eid) self1, Some e)
         | Inr metadata \<Rightarrow>
            (case add_remote_nixl_metadata E2 metadata of
               Inl e \<Rightarrow>
                 (log_prefill (AddRemoteNixlMetadata metadata)
                    (log_prefill (StoreGet eid) self1), Some e)
             | Inr u \<Rightarrow>
                 ((log_prefill (AddRemoteNixlMetadata metadata)
                     (log_prefill (StoreGet eid) self1))
                    \<lparr>loaded_metadata := insert eid (loaded_metadata self1)\<rparr>, None)))) \<and>
   (eid \<in> loaded_metadata self \<and> msgspec_decode E raw_request = Inr request \<and>
    engine_id request = eid \<longrightarrow>
      prefill_generate E self raw_request =
        (log_prefill
           (EngineGenerate (request_id request) (prompt_token_ids request)
              ((sampling_params request)\<lparr>max_tokens := Some 1, min_tokens := 1\<rparr>)
              \<lparr>is_remote_decode = True, decode_block_ids = block_ids request,
               decode_engine_id = engine_id request\<rparr>) self,
         case engine_generate E (request_id request) (prompt_token_ids request)
                ((sampling_params request)\<lparr>max_tokens := Some 1, min_tokens := 1\<rparr>)
                \<lparr>is_remote_decode = True, decode_block_ids = block_ids request,
                 decode_engine_id = engine_id request\<rparr> of
           Inl e \<Rightarrow> ([], Raised e)
         | Inr outputs \<Rightarrow> stream_prefill outputs))"
proof -
  have a: "eid \<in> loaded_metadata self \<Longrightarrow> load_nixl_metadata E self eid = (self, None)"
    for E self
    by (simp add: load_nixl_metadata_def)
  have n: "eid \<notin> loaded_metadata self0 \<Longrightarrow>
      load_nixl_metadata E1 self0 eid =
        (case store_get E1 eid of
           Inl e \<Rightarrow> (log_prefill (StoreGet eid) self0, Some e)
         | Inr metadata \<Rightarrow>
            (case add_remote_nixl_metadata E1 metadata of
               Inl e \<Rightarrow>
                 (log_prefill (AddRemoteNixlMetadata metadata)
                    (log_prefill (StoreGet eid) self0), Some e)
             | Inr u \<Rightarrow>
                 ((log_prefill (AddRemoteNixlMetadata metadata)
                     (log_prefill (StoreGet eid) self0))
                    \<lparr>loaded_metadata := insert eid (loaded_metadata self0)\<rparr>, None)))"
    by (simp add: load_nixl_metadata_def Let_def split: sum.splits)
  have b: "load_nixl_metadata E1 self0 eid = (self1, None) \<Longrightarrow> eid \<in> loaded_metadata self1"
    by (auto simp: load_nixl_metadata_def Let_def split: if_splits sum.splits)
  have c: "load_nixl_metadata E1 self0 eid = (self1, None) \<Longrightarrow>
      store_gets eid (new_prefill_calls self0 self1) \<le> 1"
    using load_nixl_metadata_calls [of E1 self0 eid self1 None] by auto
  have f: "eid \<notin> loaded_metadata self1 \<and>
      store_gets eid (new_prefill_calls self1 (fst (load_nixl_metadata E2 self1 eid))) = 1 \<and>
      store_gets eid (new_prefill_calls self0 (fst (load_nixl_metadata E2 self1 eid))) = 2 \<and>
      load_nixl_metadata E2 self1 eid =
        (case store_get E2 eid of
           Inl e \<Rightarrow> (log_prefill (StoreGet eid) self1, Some e)
         | Inr metadata \<Rightarrow>
            (case add_remote_nixl_metadata E2 metadata of
               Inl e \<Rightarrow>
                 (log_prefill (AddRemoteNixlMetadata metadata)
                    (log_prefill (StoreGet eid) self1), Some e)
             | Inr u \<Rightarrow>
                 ((log_prefill (AddRemoteNixlMetadata metadata)
                     (log_prefill (StoreGet eid) self1))
                    \<lparr>loaded_metadata := insert eid (loaded_metadata self1)\<rparr>, None)))"
    if "load_nixl_metadata E1 self0 eid = (self1, Some e1)"
    using that
    by (auto simp: load_nixl_metadata_def Let_def store_gets_def new_prefill_calls_def
             split: if_splits sum.splits)
  have d: "eid \<in> loaded_metadata self \<and> msgspec_decode E raw_request = Inr request \<and>
    engine_id request = eid \<longrightarrow>
      prefill_generate E self raw_request =
        (log_prefill
           (EngineGenerate (request_id request) (prompt_token_ids request)
              ((sampling_params request)\<lparr>max_tokens := Some 1, min_tokens := 1\<rparr>)
              \<lparr>is_remote_decode = True, decode_block_ids = block_ids request,
               decode_engine_id = engine_id request\<rparr>) self,
         case engine_generate E (request_id request) (prompt_token_ids request)
                ((sampling_params request)\<lparr>max_tokens := Some 1, min_tokens := 1\<rparr>)
                \<lparr>is_remote_decode = True, decode_block_ids = block_ids request,
                 decode_engine_id = engine_id request\<rparr> of
           Inl e \<Rightarrow> ([], Raised e)
         | Inr outputs \<Rightarrow> stream_prefill outputs)"
    by (auto simp: prefill_generate_def a Let_def split: sum.splits prod.splits)
  from a n b c f d show ?thesis by (auto simp del: One_nat_def)
qed

theorem handshake_loaded_once_witness:
  "''decode-1'' \<in> loaded_metadata loaded \<and>
   ''decode-1'' \<notin> loaded_metadata fresh \<and>
   load_nixl_metadata (prefill_env [''decode-1'' \<mapsto> ''nixl''] (Inr ())) fresh ''decode-1''
     = (loaded, None) \<and>
   load_nixl_metadata (prefill_env Map.empty (Inr ())) loaded ''decode-1'' = (loaded, None) \<and>
   store_gets ''decode-1''
     (new_prefill_calls fresh
        (fst (load_nixl_metadata (prefill_env Map.empty (Inr ())) loaded ''decode-1''))) \<le> 1 \<and>
   msgspec_decode (prefill_env Map.empty (Inr ())) ''decode-1''
     = Inr (prefill_request ''decode-1'') \<and>
   engine_id (prefill_request ''decode-1'') = ''decode-1'' \<and>
   prefill_generate (prefill_env Map.empty (Inr ())) loaded ''decode-1'' =
     (log_prefill
        (EngineGenerate ''r1'' [1, 2, 3]
           \<lparr>max_tokens = Some 1, min_tokens = 1, other_params = ''seed''\<rparr>
           \<lparr>is_remote_decode = True, decode_block_ids = [7],
            decode_engine_id = ''decode-1''\<rparr>) loaded,
      [()], Finished) \<and>
   load_nixl_metadata (prefill_env Map.empty (Inr ())) fresh ''decode-1''
     = (log_prefill (StoreGet ''decode-1'') fresh, Some (Exn NotFoundError ''decode-1'' None)) \<and>
   ''decode-1'' \<notin> loaded_metadata (log_prefill (StoreGet ''decode-1'') fresh) \<and>
   store_gets ''decode-1''
     (new_prefill_calls fresh
        (fst (load_nixl_metadata (prefill_env [''decode-1'' \<mapsto> ''nixl''] (Inr ()))
                (log_prefill (StoreGet ''decode-1'') fresh) ''decode-1''))) = 2"
proof -
  have h: "''decode-1'' \<in> loaded_metadata loaded"
    "''decode-1'' \<notin> loaded_metadata fresh"
    "load_nixl_metadata (prefill_env [''decode-1'' \<mapsto> ''nixl''] (Inr ())) fresh ''decode-1''
       = (loaded, None)"
    "msgspec_decode (prefill_env Map.empty (Inr ())) ''decode-1''
       = Inr (prefill_request ''decode-1'')"
    "engine_id (prefill_request ''decode-1'') = ''decode-1''"
    "load_nixl_metadata (prefill_env Map.empty (Inr ())) fresh ''decode-1''
       = (log_prefill (StoreGet ''decode-1'') fresh, Some (Exn NotFoundError ''decode-1'' None))"
    by (simp_all add: loaded_def fresh_def load_nixl_metadata_def prefill_env_def
          metadata_store_get_def log_prefill_def prefill_request_def NotFoundError_def)
  have g: "engine_generate (prefill_env Map.empty (Inr ())) =
      (\<lambda>rid toks sp rpp. Inr (Yield () Stop))"
    by (simp add: prefill_env_def)
  from handshake_loaded_once [where eid = "''decode-1''" and self = loaded
      and E = "prefill_env Map.empty (Inr ())"
      and ?E1.0 = "prefill_env [''decode-1'' \<mapsto> ''nixl''] (Inr ())"
      and ?self0.0 = fresh and ?self1.0 = loaded
      and ?E2.0 = "prefill_env Map.empty (Inr ())"
      and raw_request = "''decode-1''" and request = "prefill_request ''decode-1''"] h
  have first: "load_nixl_metadata (prefill_env Map.empty (Inr ())) loaded ''decode-1''
       = (loaded, None)"
    "store_gets ''decode-1''
       (new_prefill_calls fresh
          (fst (load_nixl_metadata (prefill_env Map.empty (Inr ())) loaded ''decode-1''))) \<le> 1"
    "prefill_generate (prefill_env Map.empty (Inr ())) loaded ''decode-1'' =
     (log_prefill
        (EngineGenerate ''r1'' [1, 2, 3]
           \<lparr>max_tokens = Some 1, min_tokens = 1, other_params = ''seed''\<rparr>
           \<lparr>is_remote_decode = True, decode_block_ids = [7],
            decode_engine_id = ''decode-1''\<rparr>) loaded,
      [()], Finished)"
    by (auto simp: prefill_request_def g)
  from handshake_loaded_once [where eid = "''decode-1''" and self = loaded
      and E = "prefill_env Map.empty (Inr ())"
      and ?E1.0 = "prefill_env Map.empty (Inr ())" and ?self0.0 = fresh
      and ?self1.0 = "log_prefill (StoreGet ''decode-1'') fresh"
      and ?e1.0 = "Exn NotFoundError ''decode-1'' None"
      and ?E2.0 = "prefill_env [''decode-1'' \<mapsto> ''nixl''] (Inr ())"
      and raw_request = "''decode-1''" and request = "prefill_request ''decode-1''"] h(2,6)
  have second: "''decode-1'' \<notin> loaded_metadata (log_prefill (StoreGet ''decode-1'') fresh)"
    "store_gets ''decode-1''
     (new_prefill_calls fresh
        (fst (load_nixl_metadata (prefill_env [''decode-1'' \<mapsto> ''nixl''] (Inr ()))
                (log_prefill (StoreGet ''decode-1'') fresh) ''decode-1''))) = 2"
    by auto
  from h first second show ?thesis by simp
qed

subsection \<open>A store that does not have the metadata\<close>

text \<open>
  Claim C6, as stated: when the store lookup fails with \<open>NotFoundError\<close>, the handshake
  fails with \<open>MetadataUnavailableError\<close>. It does not: with nothing published for
  \<open>decode-1\<close>, the request ends with the store's \<open>NotFoundError\<close> itself.
\<close>

theorem store_miss_counterexample:
  "store_get (prefill_env Map.empty (Inr ())) ''decode-1'' =
     Inl (Exn NotFoundError ''decode-1'' None) \<and>
   raised_class (snd (snd (prefill_generate (prefill_env Map.empty (Inr ())) fresh ''decode-1'')))
     \<noteq> Some MetadataUnavailableError \<and>
   raised_class (snd (snd (prefill_generate (prefill_env Map.empty (Inr ())) fresh ''decode-1'')))
     = Some NotFoundError"
  by (simp add: prefill_generate_def load_nixl_metadata_def prefill_env_def
        metadata_store_get_def fresh_def NotFoundError_def MetadataUnavailableError_def
        prefill_request_def)

text \<open>
  Claim C6, amended. In the prefill handler, if the store lookup for an engine identifier
  that is not yet loaded fails with an exception \<open>e\<close> (a \<open>NotFoundError\<close>, say), the request
  fails with that same exception \<open>e\<close>, unconverted, and yields nothing. The handler made
  one call only, that lookup (no retry, no ingestion, no generation), and the identifier
  is still not in the loaded-metadata set.
\<close>

theorem store_miss_propagates:
  assumes "msgspec_decode E raw_request = Inr request"
    and "engine_id request \<notin> loaded_metadata self"
    and "store_get E (engine_id request) = Inl e"
  shows "prefill_generate E self raw_request =
           (log_prefill (StoreGet (engine_id request)) self, [], Raised e) \<and>
         engine_id request \<notin> loaded_metadata (fst (prefill_generate E self raw_request)) \<and>
         new_prefill_calls self (fst (prefill_generate E self raw_request)) =
           [StoreGet (engine_id request)]"
  using assms by (simp add: prefill_generate_def load_nixl_metadata_def Let_def)

theorem store_miss_propagates_witness:
  "msgspec_decode (prefill_env Map.empty (Inr ())) ''decode-1'' = Inr (prefill_request ''decode-1'') \<and>
   engine_id (prefill_request ''decode-1'') \<notin> loaded_metadata fresh \<and>
   store_get (prefill_env Map.empty (Inr ())) (engine_id (prefill_request ''decode-1''))
     = Inl (Exn NotFoundError ''decode-1'' None) \<and>
   prefill_generate (prefill_env Map.empty (Inr ())) fresh ''decode-1'' =
     (log_prefill (StoreGet ''decode-1'') fresh, [], Raised (Exn NotFoundError ''decode-1'' None))"
proof -
  have h: "msgspec_decode (prefill_env Map.empty (Inr ())) ''decode-1''
       = Inr (prefill_request ''decode-1'')"
    "engine_id (prefill_request ''decode-1'') \<notin> loaded_metadata fresh"
    "store_get (prefill_env Map.empty (Inr ())) (engine_id (prefill_request ''decode-1''))
       = Inl (Exn NotFoundError ''decode-1'' None)"
    by (simp_all add: prefill_env_def fresh_def metadata_store_get_def NotFoundError_def
          prefill_request_def)
  from store_miss_propagates [OF h] h show ?thesis
    by (simp add: prefill_request_def)
qed

end
